theory Spec2Isabelle
  imports Main "HOL-Library.Word"
begin

unbundle bit_operations_syntax

section \<open>The shell tunnel over a UNIX socket: data model\<close>

text \<open>
  The program of \<^verbatim>\<open>shell-tunnel.c\<close> is a sequence of system calls. The model follows one
  process at a time: every system call takes the world, returns its result and the world
  after it, and appends an event to the world's trace. What the kernel decides (whether a
  call fails, which descriptor \<^verbatim>\<open>select\<close> reports, what \<^verbatim>\<open>fork\<close> returns in the
  process that is followed) is an input of the model.
\<close>

type_synonym byte = "8 word"

text \<open>\<^verbatim>\<open>enum {MODE_UNDEF, MODE_DAEMON, MODE_CLIENT}\<close> and \<^verbatim>\<open>enum {CONS_CONFIG, CONS_RESTORE}\<close>.\<close>

datatype mode = MODE_UNDEF | MODE_DAEMON | MODE_CLIENT

datatype phase = CONS_CONFIG | CONS_RESTORE

text \<open>The \<^verbatim>\<open>how\<close> argument of \<^verbatim>\<open>shutdown(2)\<close>.\<close>

datatype shut_how = SHUT_RD | SHUT_WR | SHUT_RDWR

text \<open>\<^verbatim>\<open>struct termios\<close>: the four flag words and the control characters.\<close>

record termios =
  c_iflag :: "32 word"
  c_oflag :: "32 word"
  c_cflag :: "32 word"
  c_lflag :: "32 word"
  c_cc :: "byte list"

text \<open>
  What the build fixes and the source file does not: whether \<^verbatim>\<open>ANDROID\<close> is defined, and the
  values the system's \<^verbatim>\<open>termios.h\<close> gives to the flags \<^verbatim>\<open>ICANON\<close> and \<^verbatim>\<open>ECHO\<close>.
\<close>

record platform =
  ANDROID :: bool
  ICANON :: "32 word"
  ECHO :: "32 word"

definition SERVER_PATH :: "platform \<Rightarrow> string" where
  "SERVER_PATH pf =
     (if ANDROID pf then ''/data/misc/shell-tunnel-socket'' else ''/tmp/shell-tunnel-socket'')"

definition EXEC_ARGV :: "platform \<Rightarrow> string list" where
  "EXEC_ARGV pf = (if ANDROID pf then [''/system/bin/sh'', ''-i''] else [''/bin/bash'', ''-i''])"

text \<open>The calls a process makes, with the arguments and results that matter.\<close>

datatype event =
    Ev_socket int
  | Ev_bind int string int
  | Ev_listen int int
  | Ev_chmod string nat int
  | Ev_accept int int
  | Ev_connect int string int
  | Ev_fork int
  | Ev_close int
  | Ev_unlink string
  | Ev_shutdown int shut_how
  | Ev_signal_ignore_SIGCHLD
  | Ev_openpty int int int
  | Ev_setsid int
  | Ev_dup2 int int
  | Ev_ioctl_TIOCSCTTY int int
  | Ev_execvp string "string list" bool
  | Ev_tcgetattr int
  | Ev_tcsetattr int termios
  | Ev_select
  | Ev_read int int
  | Ev_write int byte int
  | Ev_perror string
  | Ev_printf string
  | Ev_putchar char

text \<open>
  The world of the process that is followed. \<open>inp w fd\<close> is what descriptor \<open>fd\<close> will
  still deliver to \<^verbatim>\<open>read\<close> before its end of file, \<open>outp w fd\<close> what has been written to
  it. \<open>tty\<close> is the line discipline of the terminal on standard input (\<open>None\<close>: standard
  input is no terminal). \<open>rd_shut\<close> and \<open>wr_shut\<close> hold the sockets whose read or write half
  has been shut down, \<open>fs\<close> the paths that exist. \<open>term_state\<close> is the static variable of
  \<^verbatim>\<open>setup_console\<close>.
\<close>

record world =
  inp :: "int \<Rightarrow> byte list"
  outp :: "int \<Rightarrow> byte list"
  tty :: "termios option"
  rd_shut :: "int set"
  wr_shut :: "int set"
  fs :: "string set"
  term_state :: termios
  trace :: "event list"

definition log :: "event \<Rightarrow> world \<Rightarrow> world" where
  "log e w = w\<lparr>trace := trace w @ [e]\<rparr>"

definition perror :: "string \<Rightarrow> world \<Rightarrow> world" where
  "perror msg w = log (Ev_perror msg) w"

section \<open>The byte interchange\<close>

text \<open>
  \<^verbatim>\<open>read(fd, &buff, 1)\<close>: \<open>-1\<close> when the call fails, \<open>0\<close> at the end of file, otherwise \<open>1\<close>
  and the next byte of the descriptor. The second component is \<^verbatim>\<open>buff\<close> after the call.
\<close>

definition sys_read :: "int \<Rightarrow> bool \<Rightarrow> world \<Rightarrow> (int \<times> byte) \<times> world" where
  "sys_read fd fails w =
     (if fails then ((- 1, 0), log (Ev_read fd (- 1)) w)
      else case inp w fd of
          [] \<Rightarrow> ((0, 0), log (Ev_read fd 0) w)
        | b # bs \<Rightarrow> ((1, b), log (Ev_read fd 1) (w\<lparr>inp := (inp w)(fd := bs)\<rparr>)))"

text \<open>
  \<^verbatim>\<open>write(fd, &buff, 1)\<close> returning \<open>ret\<close>: the byte is written when \<open>ret\<close> is at least 1.
\<close>

definition sys_write :: "int \<Rightarrow> byte \<Rightarrow> int \<Rightarrow> world \<Rightarrow> int \<times> world" where
  "sys_write fd b ret w =
     (ret, log (Ev_write fd b ret)
             (if 1 \<le> ret then w\<lparr>outp := (outp w)(fd := outp w fd @ [b])\<rparr> else w))"

text \<open>
  One round of the loop of \<^verbatim>\<open>byte_interchange\<close>, as the kernel decides it: what
  \<^verbatim>\<open>FD_ISSET\<close> says of each source after \<^verbatim>\<open>select\<close>, whether each \<^verbatim>\<open>read\<close> fails, and what
  each \<^verbatim>\<open>write\<close> returns.
\<close>

record tick =
  isset_a :: bool
  read_a_fails :: bool
  write_b_ret :: int
  isset_b :: bool
  read_b_fails :: bool
  write_a_ret :: int

text \<open>
  One of the two blocks \<^verbatim>\<open>if (FD_ISSET(in, &readfds)) { read; write }\<close> of the loop body.
  \<open>Some len\<close> is a \<^verbatim>\<open>break\<close> with the value of \<^verbatim>\<open>len\<close> then; \<open>None\<close> falls through.
\<close>

definition relay_dir ::
  "int \<Rightarrow> int \<Rightarrow> string \<Rightarrow> string \<Rightarrow> bool \<Rightarrow> bool \<Rightarrow> int \<Rightarrow> world \<Rightarrow> int option \<times> world" where
  "relay_dir src dst rmsg wmsg isset rfails wret w =
     (if isset then
        (case sys_read src rfails w of
           ((len, buff), w1) \<Rightarrow>
             if len < 0 then (Some len, perror rmsg w1)
             else if len = 0 then (Some len, w1)
             else (case sys_write dst buff wret w1 of
                     (len', w2) \<Rightarrow>
                       if len' < 1 then (Some len', perror wmsg w2) else (None, w2)))
      else (None, w))"

definition iteration :: "int \<Rightarrow> int \<Rightarrow> int \<Rightarrow> int \<Rightarrow> tick \<Rightarrow> world \<Rightarrow> int option \<times> world" where
  "iteration in_a out_a in_b out_b t w =
     (case relay_dir in_a out_b ''could not read file (a)'' ''could not write file (b)''
             (isset_a t) (read_a_fails t) (write_b_ret t) (log Ev_select w) of
        (Some len, w1) \<Rightarrow> (Some len, w1)
      | (None, w1) \<Rightarrow>
          relay_dir in_b out_a ''could not read file (b)'' ''could not write file (a)''
            (isset_b t) (read_b_fails t) (write_a_ret t) w1)"

text \<open>
  \<^verbatim>\<open>byte_interchange\<close>: the loop runs one round per tick. \<open>Some len\<close> is the value returned;
  \<open>None\<close> says that the loop is still running when the ticks are used up.
\<close>

fun byte_interchange ::
  "int \<Rightarrow> int \<Rightarrow> int \<Rightarrow> int \<Rightarrow> tick list \<Rightarrow> world \<Rightarrow> int option \<times> world" where
  "byte_interchange in_a out_a in_b out_b [] w = (None, w)"
| "byte_interchange in_a out_a in_b out_b (t # ts) w =
     (case iteration in_a out_a in_b out_b t w of
        (Some len, w1) \<Rightarrow> (Some len, w1)
      | (None, w1) \<Rightarrow> byte_interchange in_a out_a in_b out_b ts w1)"

section \<open>The other system calls\<close>

text \<open>
  Each call logs itself. The result of a call is the kernel's and comes as an argument
  (\<open>ret\<close>); the effects on the world that the properties below are about are written out:
  \<^verbatim>\<open>bind\<close> creates the path, \<^verbatim>\<open>unlink\<close> removes it, \<^verbatim>\<open>shutdown\<close> closes halves of a
  connection, \<^verbatim>\<open>tcgetattr\<close> and \<^verbatim>\<open>tcsetattr\<close> read and set the line discipline of the
  terminal and fail when the descriptor is no terminal.
\<close>

datatype 'a outcome = Done 'a | Running | Exec

definition STDIN_FILENO :: int where "STDIN_FILENO = 0"
definition STDOUT_FILENO :: int where "STDOUT_FILENO = 1"
definition STDERR_FILENO :: int where "STDERR_FILENO = 2"

definition sys_socket :: "int \<Rightarrow> world \<Rightarrow> int \<times> world" where
  "sys_socket ret w = (ret, log (Ev_socket ret) w)"

definition sys_bind :: "int \<Rightarrow> string \<Rightarrow> int \<Rightarrow> world \<Rightarrow> int \<times> world" where
  "sys_bind fd path ret w =
     (ret, log (Ev_bind fd path ret) (if 0 \<le> ret then w\<lparr>fs := insert path (fs w)\<rparr> else w))"

definition sys_listen :: "int \<Rightarrow> int \<Rightarrow> int \<Rightarrow> world \<Rightarrow> int \<times> world" where
  "sys_listen fd backlog ret w = (ret, log (Ev_listen fd backlog) w)"

definition sys_chmod :: "string \<Rightarrow> nat \<Rightarrow> int \<Rightarrow> world \<Rightarrow> int \<times> world" where
  "sys_chmod path md ret w = (ret, log (Ev_chmod path md ret) w)"

definition sys_accept :: "int \<Rightarrow> int \<Rightarrow> world \<Rightarrow> int \<times> world" where
  "sys_accept fd ret w = (ret, log (Ev_accept fd ret) w)"

definition sys_connect :: "int \<Rightarrow> string \<Rightarrow> int \<Rightarrow> world \<Rightarrow> int \<times> world" where
  "sys_connect fd path ret w = (ret, log (Ev_connect fd path ret) w)"

definition sys_fork :: "int \<Rightarrow> world \<Rightarrow> int \<times> world" where
  "sys_fork ret w = (ret, log (Ev_fork ret) w)"

definition sys_close :: "int \<Rightarrow> world \<Rightarrow> world" where
  "sys_close fd w = log (Ev_close fd) w"

definition sys_unlink :: "string \<Rightarrow> world \<Rightarrow> world" where
  "sys_unlink path w = log (Ev_unlink path) (w\<lparr>fs := fs w - {path}\<rparr>)"

definition sys_shutdown :: "int \<Rightarrow> shut_how \<Rightarrow> world \<Rightarrow> world" where
  "sys_shutdown fd how w =
     log (Ev_shutdown fd how)
       (w\<lparr>rd_shut := (if how = SHUT_WR then rd_shut w else insert fd (rd_shut w)),
          wr_shut := (if how = SHUT_RD then wr_shut w else insert fd (wr_shut w))\<rparr>)"

definition sys_openpty :: "int \<Rightarrow> int \<Rightarrow> int \<Rightarrow> world \<Rightarrow> (int \<times> int \<times> int) \<times> world" where
  "sys_openpty ret mst slv w = ((ret, mst, slv), log (Ev_openpty ret mst slv) w)"

definition sys_setsid :: "int \<Rightarrow> world \<Rightarrow> int \<times> world" where
  "sys_setsid ret w = (ret, log (Ev_setsid ret) w)"

definition sys_dup2 :: "int \<Rightarrow> int \<Rightarrow> world \<Rightarrow> world" where
  "sys_dup2 fd fd2 w = log (Ev_dup2 fd fd2) w"

definition sys_ioctl_TIOCSCTTY :: "int \<Rightarrow> int \<Rightarrow> world \<Rightarrow> int \<times> world" where
  "sys_ioctl_TIOCSCTTY fd ret w = (ret, log (Ev_ioctl_TIOCSCTTY fd ret) w)"

text \<open>\<^verbatim>\<open>execvp\<close> returns only when it fails: the result says whether it returned.\<close>

definition sys_execvp :: "string \<Rightarrow> string list \<Rightarrow> bool \<Rightarrow> world \<Rightarrow> bool \<times> world" where
  "sys_execvp file args fails w = (fails, log (Ev_execvp file args fails) w)"

definition sys_tcgetattr :: "int \<Rightarrow> world \<Rightarrow> termios option \<times> world" where
  "sys_tcgetattr fd w = (tty w, log (Ev_tcgetattr fd) w)"

definition sys_tcsetattr :: "int \<Rightarrow> termios \<Rightarrow> world \<Rightarrow> world" where
  "sys_tcsetattr fd st w =
     log (Ev_tcsetattr fd st) (case tty w of None \<Rightarrow> w | Some _ \<Rightarrow> w\<lparr>tty := Some st\<rparr>)"

definition putchar :: "char \<Rightarrow> world \<Rightarrow> world" where
  "putchar c w = log (Ev_putchar c) w"

definition printf :: "string \<Rightarrow> world \<Rightarrow> world" where
  "printf s w = log (Ev_printf s) w"

section \<open>Client side\<close>

text \<open>
  \<^verbatim>\<open>setup_console\<close>. \<^verbatim>\<open>tcgetattr\<close> fills \<^verbatim>\<open>term_state\<close> when it succeeds; its result is not
  looked at.
\<close>

definition setup_console :: "platform \<Rightarrow> phase \<Rightarrow> bool \<Rightarrow> world \<Rightarrow> world" where
  "setup_console pf ph local_echo w =
     (case ph of
        CONS_CONFIG \<Rightarrow>
          (case sys_tcgetattr STDIN_FILENO w of
             (got, w1) \<Rightarrow>
               let w2 = (case got of None \<Rightarrow> w1 | Some t \<Rightarrow> w1\<lparr>term_state := t\<rparr>);
                   new_state = term_state w2;
                   new_state = new_state\<lparr>c_lflag := c_lflag new_state AND
                                 NOT (ICANON pf OR (if \<not> local_echo then ECHO pf else 0))\<rparr>
               in sys_tcsetattr STDIN_FILENO new_state w2)
      | CONS_RESTORE \<Rightarrow> sys_tcsetattr STDIN_FILENO (term_state w) w)"

definition console_proxy ::
  "platform \<Rightarrow> int \<Rightarrow> bool \<Rightarrow> tick list \<Rightarrow> world \<Rightarrow> int option \<times> world" where
  "console_proxy pf sockfd local_echo ticks w =
     (case byte_interchange STDIN_FILENO STDOUT_FILENO sockfd sockfd ticks
             (setup_console pf CONS_CONFIG local_echo w) of
        (None, w1) \<Rightarrow> (None, w1)
      | (Some err, w1) \<Rightarrow> (Some err, setup_console pf CONS_RESTORE local_echo w1))"

text \<open>What the kernel decides for one client.\<close>

record client_env =
  c_socket_ret :: int
  connect_ret :: int
  c_relay :: "tick list"

definition client_mode :: "platform \<Rightarrow> bool \<Rightarrow> client_env \<Rightarrow> world \<Rightarrow> unit outcome \<times> world" where
  "client_mode pf local_echo env w =
     (case sys_socket (c_socket_ret env) w of
        (sockfd, w1) \<Rightarrow>
          if sockfd < 0 then (Done (), putchar CHR 0x0A (perror ''could not open socket'' w1))
          else
            (case sys_connect sockfd (SERVER_PATH pf) (connect_ret env) w1 of
               (err, w2) \<Rightarrow>
                 if err < 0 then
                   (Done (), putchar CHR 0x0A
                      (sys_close sockfd (perror ''could not connect to socket'' w2)))
                 else
                   (case console_proxy pf sockfd local_echo (c_relay env) w2 of
                      (None, w3) \<Rightarrow> (Running, w3)
                    | (Some _, w3) \<Rightarrow>
                        (Done (), putchar CHR 0x0A
                           (sys_close sockfd (sys_shutdown sockfd SHUT_RDWR w3))))))"

section \<open>Server side\<close>

record shell_env =
  setsid_ret :: int
  ioctl_ret :: int
  execvp_fails :: bool

text \<open>\<^verbatim>\<open>shell\<close>: \<open>Exec\<close> when the process has become the shell program.\<close>

definition shell :: "platform \<Rightarrow> int \<Rightarrow> shell_env \<Rightarrow> world \<Rightarrow> unit outcome \<times> world" where
  "shell pf fd env w =
     (case sys_setsid (setsid_ret env) w of
        (err, w1) \<Rightarrow>
          if err < 0 then (Done (), perror ''could not create a new session'' w1)
          else
            (case sys_ioctl_TIOCSCTTY fd (ioctl_ret env)
                    (sys_dup2 fd STDERR_FILENO (sys_dup2 fd STDOUT_FILENO
                       (sys_dup2 fd STDIN_FILENO w1))) of
               (err, w2) \<Rightarrow>
                 if err < 0 then (Done (), perror ''could not issue IOCTL'' w2)
                 else
                   (case sys_execvp (hd (EXEC_ARGV pf)) (EXEC_ARGV pf) (execvp_fails env)
                           (sys_close fd w2) of
                      (returned, w3) \<Rightarrow>
                        if returned then (Done (), perror ''could not exec shell'' w3)
                        else (Exec, w3))))"

record spawn_env =
  openpty_ret :: int
  pty_mst :: int
  pty_slv :: int
  spawn_fork :: int
  shell_e :: shell_env
  s_relay :: "tick list"

definition spawn_shell :: "platform \<Rightarrow> int \<Rightarrow> spawn_env \<Rightarrow> world \<Rightarrow> unit outcome \<times> world" where
  "spawn_shell pf sockfd env w =
     (case sys_openpty (openpty_ret env) (pty_mst env) (pty_slv env) w of
        ((err, mst, slv), w1) \<Rightarrow>
          if err < 0 then (Done (), perror ''could not open pseudo terminal'' w1)
          else
            (case sys_fork (spawn_fork env) w1 of
               (pid, w2) \<Rightarrow>
                 if pid = - 1 then (Done (), perror ''could not fork process'' w2)
                 else if pid = 0 then shell pf slv (shell_e env) (sys_close mst w2)
                 else
                   (case byte_interchange sockfd sockfd mst mst (s_relay env)
                           (sys_close slv w2) of
                      (None, w3) \<Rightarrow> (Running, w3)
                    | (Some _, w3) \<Rightarrow> (Done (), sys_close mst w3))))"

text \<open>The labels \<^verbatim>\<open>out_err_1\<close> and \<^verbatim>\<open>out_err_2\<close> of \<^verbatim>\<open>server_mode\<close>.\<close>

definition out_err_1 :: "platform \<Rightarrow> int \<Rightarrow> world \<Rightarrow> world" where
  "out_err_1 pf sockfd w = sys_unlink (SERVER_PATH pf) (sys_close sockfd w)"

definition out_err_2 :: "platform \<Rightarrow> int \<Rightarrow> int \<Rightarrow> world \<Rightarrow> world" where
  "out_err_2 pf sockfd new_sockfd w = out_err_1 pf sockfd (sys_close new_sockfd w)"

text \<open>What the kernel decides in one round of the accept loop, seen from the process followed.\<close>

record accept_env =
  accept_ret :: int
  accept_fork :: int
  spawn_e :: spawn_env

text \<open>
  The \<^verbatim>\<open>while (true)\<close> loop of \<^verbatim>\<open>server_mode\<close>, one round per entry of the list; \<open>Running\<close>
  when the list is used up and the loop is at \<^verbatim>\<open>accept\<close> again.
\<close>

fun accept_loop ::
  "platform \<Rightarrow> int \<Rightarrow> accept_env list \<Rightarrow> world \<Rightarrow> unit outcome \<times> world" where
  "accept_loop pf sockfd [] w = (Running, w)"
| "accept_loop pf sockfd (a # as) w =
     (case sys_accept sockfd (accept_ret a) w of
        (new_sockfd, w1) \<Rightarrow>
          if new_sockfd < 0 then
            (Done (), out_err_1 pf sockfd (perror ''could not accept connection'' w1))
          else
            (case sys_fork (accept_fork a) w1 of
               (pid, w2) \<Rightarrow>
                 if pid < 0 then
                   (Done (), out_err_2 pf sockfd new_sockfd (perror ''could not fork process'' w2))
                 else if pid > 0 then accept_loop pf sockfd as (sys_close new_sockfd w2)
                 else
                   (case spawn_shell pf new_sockfd (spawn_e a) (sys_close sockfd w2) of
                      (Done u, w3) \<Rightarrow> (Done (), sys_close new_sockfd w3)
                    | (Running, w3) \<Rightarrow> (Running, w3)
                    | (Exec, w3) \<Rightarrow> (Exec, w3))))"

text \<open>\<^verbatim>\<open>server_mode\<close>. The mode \<^verbatim>\<open>0666\<close> of the source is octal: 438.\<close>

record server_env =
  socket_ret :: int
  bind_ret :: int
  listen_ret :: int
  chmod_ret :: int
  accepts :: "accept_env list"

definition server_mode :: "platform \<Rightarrow> server_env \<Rightarrow> world \<Rightarrow> unit outcome \<times> world" where
  "server_mode pf env w =
     (case sys_socket (socket_ret env) w of
        (sockfd, w1) \<Rightarrow>
          if sockfd < 0 then (Done (), perror ''could not open socket'' w1)
          else
            (case sys_bind sockfd (SERVER_PATH pf) (bind_ret env) w1 of
               (err, w2) \<Rightarrow>
                 if err < 0 then
                   (Done (), out_err_1 pf sockfd (perror ''could not bind to socket'' w2))
                 else
                   (case sys_listen sockfd 1 (listen_ret env) w2 of
                      (err, w3) \<Rightarrow>
                        if err < 0 then
                          (Done (), out_err_1 pf sockfd (perror ''could not listen to socket'' w3))
                        else
                          (case sys_chmod (SERVER_PATH pf) 438 (chmod_ret env) w3 of
                             (err, w4) \<Rightarrow>
                               if err < 0 then
                                 (Done (), out_err_1 pf sockfd
                                    (perror ''could not change socket mode'' w4))
                               else accept_loop pf sockfd (accepts env) w4))))"

section \<open>The command line\<close>

text \<open>
  The \<^verbatim>\<open>for\<close> loop of \<^verbatim>\<open>main\<close> over \<^verbatim>\<open>argv[1]\<close> to \<^verbatim>\<open>argv[argc - 1]\<close>, on the pair of
  \<^verbatim>\<open>mode\<close> and \<^verbatim>\<open>local_echo\<close>.
\<close>

fun parse_args :: "string list \<Rightarrow> mode \<times> bool \<Rightarrow> mode \<times> bool" where
  "parse_args [] st = st"
| "parse_args (a # as) (md, local_echo) =
     parse_args as
       (if a = ''--daemon'' then (MODE_DAEMON, local_echo)
        else if a = ''--client'' then (MODE_CLIENT, local_echo)
        else if a = ''--echo'' then (md, True)
        else (md, local_echo))"

text \<open>
  \<^verbatim>\<open>basename\<close> of \<^verbatim>\<open>libgen.h\<close>: the last component of a path, trailing slashes dropped;
  \<^verbatim>\<open>"."\<close> for the empty string and \<^verbatim>\<open>"/"\<close> for a string of slashes.
\<close>

definition basename :: "string \<Rightarrow> string" where
  "basename p =
     (if p = [] then ''.''
      else let q = dropWhile (\<lambda>c. c = CHR ''/'') (rev p)
           in if q = [] then ''/'' else rev (takeWhile (\<lambda>c. c \<noteq> CHR ''/'') q))"

text \<open>\<^verbatim>\<open>print_usage\<close> ends the process with \<^verbatim>\<open>exit(1)\<close>.\<close>

definition print_usage :: "string \<Rightarrow> world \<Rightarrow> int outcome \<times> world" where
  "print_usage name w =
     (Done 1, printf (name @ '' --client [--echo] '' @ [CHR 0x0A])
                (printf (name @ '' --daemon '' @ [CHR 0x0A])
                   (printf (''Usage: '' @ [CHR 0x0A]) w)))"

record main_env =
  daemon_fork :: int
  server_e :: server_env
  client_e :: client_env

text \<open>
  \<^verbatim>\<open>main\<close>, from the argument vector (\<^verbatim>\<open>argv[0]\<close> included) to the exit status of the
  process followed.
\<close>

definition main :: "platform \<Rightarrow> string list \<Rightarrow> main_env \<Rightarrow> world \<Rightarrow> int outcome \<times> world" where
  "main pf argv env w =
     (case parse_args (drop 1 argv) (MODE_UNDEF, False) of
        (md, local_echo) \<Rightarrow>
          (case md of
             MODE_DAEMON \<Rightarrow>
               (case sys_fork (daemon_fork env) w of
                  (pid, w1) \<Rightarrow>
                    if pid \<noteq> 0 then (Done 0, w1)
                    else
                      (case server_mode pf (server_e env)
                              (log Ev_signal_ignore_SIGCHLD (sys_unlink (SERVER_PATH pf) w1)) of
                         (Done u, w2) \<Rightarrow> (Done 0, w2)
                       | (Running, w2) \<Rightarrow> (Running, w2)
                       | (Exec, w2) \<Rightarrow> (Exec, w2)))
           | MODE_CLIENT \<Rightarrow>
               (case client_mode pf local_echo (client_e env) w of
                  (Done u, w1) \<Rightarrow> (Done 0, w1)
                | (Running, w1) \<Rightarrow> (Running, w1)
                | (Exec, w1) \<Rightarrow> (Exec, w1))
           | MODE_UNDEF \<Rightarrow>
               print_usage (case argv of [] \<Rightarrow> ''.'' | a # _ \<Rightarrow> basename a) w))"

section \<open>Reading a trace\<close>

text \<open>The events a run has added to the trace of the world it started from.\<close>

definition events_since :: "world \<Rightarrow> world \<Rightarrow> event list" where
  "events_since w w' = drop (length (trace w)) (trace w')"

text \<open>A \<^verbatim>\<open>read\<close> or \<^verbatim>\<open>write\<close> that failed.\<close>

fun io_error :: "event \<Rightarrow> bool" where
  "io_error (Ev_read fd n) = (n < 0)"
| "io_error (Ev_write fd b n) = (n < 1)"
| "io_error _ = False"

text \<open>A \<^verbatim>\<open>read\<close> that met the end of file or failed, or a \<^verbatim>\<open>write\<close> that failed.\<close>

fun ends_relay :: "event \<Rightarrow> bool" where
  "ends_relay (Ev_read fd n) = (n \<le> 0)"
| "ends_relay (Ev_write fd b n) = (n < 1)"
| "ends_relay _ = False"

text \<open>The calls of the relay on its descriptors.\<close>

fun is_io :: "event \<Rightarrow> bool" where
  "is_io (Ev_read fd n) = True"
| "is_io (Ev_write fd b n) = True"
| "is_io Ev_select = True"
| "is_io _ = False"

text \<open>What a \<^verbatim>\<open>read\<close> or \<^verbatim>\<open>write\<close> returned.\<close>

fun result_of :: "event \<Rightarrow> int" where
  "result_of (Ev_read fd n) = n"
| "result_of (Ev_write fd b n) = n"
| "result_of _ = 1"

text \<open>No call of the relay follows the first event that ends it.\<close>

fun stops_at_end :: "event list \<Rightarrow> bool" where
  "stops_at_end [] = True"
| "stops_at_end (e # es) =
     (if ends_relay e then list_all (\<lambda>p. \<not> is_io p) es else stops_at_end es)"

text \<open>The result of the first call that ends the relay, if there is one.\<close>

fun end_result :: "event list \<Rightarrow> int option" where
  "end_result [] = None"
| "end_result (e # es) = (if ends_relay e then Some (result_of e) else end_result es)"

text \<open>The calls that read or set the line discipline of the terminal.\<close>

fun terminal_event :: "event \<Rightarrow> bool" where
  "terminal_event (Ev_tcgetattr fd) = True"
| "terminal_event (Ev_tcsetattr fd st) = True"
| "terminal_event _ = False"

text \<open>The events of the relay: its calls and its diagnostics.\<close>

fun relay_event :: "event \<Rightarrow> bool" where
  "relay_event (Ev_perror msg) = True"
| "relay_event e = is_io e"

text \<open>The calls that shut down or close a descriptor.\<close>

fun closing_event :: "event \<Rightarrow> bool" where
  "closing_event (Ev_shutdown fd how) = True"
| "closing_event (Ev_close fd) = True"
| "closing_event _ = False"

text \<open>
  What \<^verbatim>\<open>term_state\<close> holds once \<^verbatim>\<open>setup_console(CONS_CONFIG, ...)\<close> has run in world \<open>w\<close>: the
  line discipline of the terminal, or the old content when standard input is no terminal.
\<close>

definition snapshot :: "world \<Rightarrow> termios" where
  "snapshot w = (case tty w of None \<Rightarrow> term_state w | Some t \<Rightarrow> t)"

text \<open>A state with the flags of raw mode cleared in \<^verbatim>\<open>c_lflag\<close>.\<close>

definition raw_state :: "platform \<Rightarrow> bool \<Rightarrow> termios \<Rightarrow> termios" where
  "raw_state pf local_echo st =
     st\<lparr>c_lflag := c_lflag st AND NOT (ICANON pf OR (if \<not> local_echo then ECHO pf else 0))\<rparr>"

text \<open>The events of a client up to the relay, and those after it.\<close>

definition client_opening :: "platform \<Rightarrow> bool \<Rightarrow> client_env \<Rightarrow> world \<Rightarrow> event list" where
  "client_opening pf local_echo env w =
     [Ev_socket (c_socket_ret env),
      Ev_connect (c_socket_ret env) (SERVER_PATH pf) (connect_ret env),
      Ev_tcgetattr STDIN_FILENO,
      Ev_tcsetattr STDIN_FILENO (raw_state pf local_echo (snapshot w))]"

definition client_closing :: "client_env \<Rightarrow> world \<Rightarrow> event list" where
  "client_closing env w =
     [Ev_tcsetattr STDIN_FILENO (snapshot w),
      Ev_shutdown (c_socket_ret env) SHUT_RDWR,
      Ev_close (c_socket_ret env),
      Ev_putchar CHR 0x0A]"

text \<open>
  A round of the accept loop in which \<^verbatim>\<open>accept\<close> succeeds and \<^verbatim>\<open>fork\<close> returns the pid of
  the child: the process followed is the acceptor. Its events in such rounds, the events of
  a setup that succeeds, and those of an \<^verbatim>\<open>accept\<close> that fails.
\<close>

definition served :: "accept_env \<Rightarrow> bool" where
  "served a \<longleftrightarrow> 0 \<le> accept_ret a \<and> 0 < accept_fork a"

definition parent_round :: "int \<Rightarrow> accept_env \<Rightarrow> event list" where
  "parent_round sockfd a =
     [Ev_accept sockfd (accept_ret a), Ev_fork (accept_fork a), Ev_close (accept_ret a)]"

definition parent_rounds :: "int \<Rightarrow> accept_env list \<Rightarrow> event list" where
  "parent_rounds sockfd as = concat (map (parent_round sockfd) as)"

definition server_setup :: "platform \<Rightarrow> server_env \<Rightarrow> event list" where
  "server_setup pf env =
     [Ev_socket (socket_ret env),
      Ev_bind (socket_ret env) (SERVER_PATH pf) (bind_ret env),
      Ev_listen (socket_ret env) 1,
      Ev_chmod (SERVER_PATH pf) 438 (chmod_ret env)]"

definition accept_failure :: "platform \<Rightarrow> int \<Rightarrow> accept_env \<Rightarrow> event list" where
  "accept_failure pf sockfd a =
     [Ev_accept sockfd (accept_ret a), Ev_perror ''could not accept connection'',
      Ev_close sockfd, Ev_unlink (SERVER_PATH pf)]"

text \<open>The arguments that select a mode, those the command line knows, and the usage message.\<close>

definition mode_flag :: "string \<Rightarrow> bool" where
  "mode_flag a \<longleftrightarrow> a = ''--daemon'' \<or> a = ''--client''"

definition recognised :: "string \<Rightarrow> bool" where
  "recognised a \<longleftrightarrow> a = ''--daemon'' \<or> a = ''--client'' \<or> a = ''--echo''"

fun usage_event :: "event \<Rightarrow> bool" where
  "usage_event (Ev_printf s) = True"
| "usage_event _ = False"

text \<open>A run from \<open>w\<close> to \<open>w'\<close> that has printed no usage message.\<close>

definition silent :: "world \<Rightarrow> world \<Rightarrow> bool" where
  "silent w w' \<longleftrightarrow> (\<exists>es. trace w' = trace w @ es \<and> list_all (\<lambda>e. \<not> usage_event e) es)"

section \<open>Example runs\<close>

text \<open>
  A Linux build, a terminal in its usual cooked mode, and a world in which standard input
  will deliver \<^verbatim>\<open>ls\<close> and descriptor 3 (the socket) a prompt character.
\<close>

definition linux :: platform where
  "linux = \<lparr>ANDROID = False, ICANON = 2, ECHO = 8\<rparr>"

definition cooked :: termios where
  "cooked = \<lparr>c_iflag = 0x500, c_oflag = 5, c_cflag = 0xBF, c_lflag = 0x8A3B, c_cc = []\<rparr>"

definition demo_world :: world where
  "demo_world =
     \<lparr>inp = (\<lambda>fd. if fd = 0 then [0x6C, 0x73] else if fd = 3 then [0x24] else []),
      outp = (\<lambda>fd. []), tty = Some cooked, rd_shut = {}, wr_shut = {}, fs = {},
      term_state = \<lparr>c_iflag = 0, c_oflag = 0, c_cflag = 0, c_lflag = 0, c_cc = []\<rparr>,
      trace = []\<rparr>"

text \<open>The same world with nothing left to read on standard input.\<close>

definition hangup_world :: world where
  "hangup_world = demo_world\<lparr>inp := (\<lambda>fd. if fd = 3 then [0x24] else [])\<rparr>"

text \<open>Rounds in which \<^verbatim>\<open>select\<close> reports source a, source b, both, or neither.\<close>

definition tick_a :: tick where
  "tick_a = \<lparr>isset_a = True, read_a_fails = False, write_b_ret = 1,
            isset_b = False, read_b_fails = False, write_a_ret = 1\<rparr>"

definition tick_b :: tick where
  "tick_b = \<lparr>isset_a = False, read_a_fails = False, write_b_ret = 1,
            isset_b = True, read_b_fails = False, write_a_ret = 1\<rparr>"

definition tick_ab :: tick where
  "tick_ab = \<lparr>isset_a = True, read_a_fails = False, write_b_ret = 1,
             isset_b = True, read_b_fails = False, write_a_ret = 1\<rparr>"

definition tick_idle :: tick where
  "tick_idle = \<lparr>isset_a = False, read_a_fails = False, write_b_ret = 1,
               isset_b = False, read_b_fails = False, write_a_ret = 1\<rparr>"

definition demo_ticks :: "tick list" where
  "demo_ticks = [tick_ab, tick_idle, tick_a, tick_a, tick_b]"

text \<open>
  A client whose \<^verbatim>\<open>socket\<close> returns descriptor 3 and whose \<^verbatim>\<open>connect\<close> succeeds; a daemon
  whose setup succeeds; a session whose pseudo terminal is the pair 5 and 6.
\<close>

definition demo_client :: client_env where
  "demo_client = \<lparr>c_socket_ret = 3, connect_ret = 0, c_relay = demo_ticks\<rparr>"

definition demo_shell :: shell_env where
  "demo_shell = \<lparr>setsid_ret = 0, ioctl_ret = 0, execvp_fails = False\<rparr>"

definition demo_spawn :: spawn_env where
  "demo_spawn = \<lparr>openpty_ret = 0, pty_mst = 5, pty_slv = 6, spawn_fork = 0,
                  shell_e = demo_shell, s_relay = []\<rparr>"

definition demo_server :: server_env where
  "demo_server = \<lparr>socket_ret = 3, bind_ret = 0, listen_ret = 0, chmod_ret = 0, accepts = []\<rparr>"

definition demo_main :: main_env where
  "demo_main = \<lparr>daemon_fork = 0, server_e = demo_server, client_e = demo_client\<rparr>"

text \<open>A round of the accept loop as the acceptor sees it: connection 4, child 77.\<close>

definition demo_accept :: accept_env where
  "demo_accept = \<lparr>accept_ret = 4, accept_fork = 77, spawn_e = demo_spawn\<rparr>"

section \<open>Properties of the byte interchange\<close>

lemmas sys_defs = relay_dir_def iteration_def sys_read_def sys_write_def log_def perror_def

lemmas demo_defs = demo_world_def tick_a_def tick_b_def tick_ab_def tick_idle_def demo_ticks_def

lemma events_since_append: "trace w' = trace w @ es \<Longrightarrow> events_since w w' = es"
  by (simp add: events_since_def)

lemma stops_at_end_append:
  "stops_at_end (xs @ ys) =
     (if end_result xs = None then stops_at_end ys
      else stops_at_end xs \<and> list_all (\<lambda>p. \<not> is_io p) ys)"
  by (induction xs) auto

lemma end_result_append:
  "end_result (xs @ ys) = (case end_result xs of None \<Rightarrow> end_result ys | Some n \<Rightarrow> Some n)"
  by (induction xs) auto

lemma end_result_None_iff: "end_result es = None \<longleftrightarrow> (\<forall>e \<in> set es. \<not> ends_relay e)"
  by (induction es) auto

subsection \<open>One direction of one round\<close>

lemma relay_dir_trace:
  assumes "relay_dir src dst rmsg wmsg isset rfails wret w = (r, w')"
  shows "\<exists>es. trace w' = trace w @ es \<and> stops_at_end es \<and> end_result es = r
           \<and> list_all relay_event es"
  using assms
  by (auto simp: relay_dir_def sys_read_def sys_write_def log_def perror_def
           split: if_splits list.splits)

lemma relay_dir_frame:
  assumes "relay_dir src dst rmsg wmsg isset rfails wret w = (r, w')"
  shows "tty w' = tty w \<and> term_state w' = term_state w \<and> fs w' = fs w
           \<and> rd_shut w' = rd_shut w \<and> wr_shut w' = wr_shut w"
  using assms
  by (auto simp: relay_dir_def sys_read_def sys_write_def log_def perror_def
           split: if_splits list.splits)

lemma relay_dir_moves:
  assumes "relay_dir src dst rmsg wmsg isset rfails wret w = (r, w')"
      and "list_all (\<lambda>e. \<not> io_error e) (events_since w w')"
  shows "\<exists>x. inp w src = x @ inp w' src \<and> outp w' dst = outp w dst @ x
           \<and> (\<forall>f. f \<noteq> src \<longrightarrow> inp w' f = inp w f)
           \<and> (\<forall>f. f \<noteq> dst \<longrightarrow> outp w' f = outp w f)
           \<and> (case r of
                 None \<Rightarrow> length x = (if isset then 1 else 0)
               | Some len \<Rightarrow> len = 0 \<and> isset \<and> x = [] \<and> inp w' src = [])"
  using assms
  by (auto simp: relay_dir_def sys_read_def sys_write_def log_def perror_def events_since_def
           split: if_splits list.splits)

subsection \<open>One round\<close>

lemma iteration_cases:
  assumes "iteration in_a out_a in_b out_b t w = (r, w')"
  obtains (brk) len where "r = Some len"
      "relay_dir in_a out_b ''could not read file (a)'' ''could not write file (b)''
         (isset_a t) (read_a_fails t) (write_b_ret t) (log Ev_select w) = (Some len, w')"
  | (thru) w1 where
      "relay_dir in_a out_b ''could not read file (a)'' ''could not write file (b)''
         (isset_a t) (read_a_fails t) (write_b_ret t) (log Ev_select w) = (None, w1)"
      "relay_dir in_b out_a ''could not read file (b)'' ''could not write file (a)''
         (isset_b t) (read_b_fails t) (write_a_ret t) w1 = (r, w')"
  using assms by (auto simp: iteration_def split: prod.splits option.splits)

lemma iteration_trace:
  assumes "iteration in_a out_a in_b out_b t w = (r, w')"
  shows "\<exists>es. trace w' = trace w @ es \<and> stops_at_end es \<and> end_result es = r
           \<and> list_all relay_event es"
  using assms
proof (cases rule: iteration_cases)
  case (brk len)
  from relay_dir_trace [OF brk(2)] obtain es where
    "trace w' = trace w @ Ev_select # es" "stops_at_end es" "end_result es = Some len"
    "list_all relay_event es"
    by (auto simp: log_def)
  with brk(1) have "trace w' = trace w @ (Ev_select # es) \<and> stops_at_end (Ev_select # es)
      \<and> end_result (Ev_select # es) = r \<and> list_all relay_event (Ev_select # es)" by simp
  then show ?thesis by blast
next
  case (thru w1)
  from relay_dir_trace [OF thru(1)] obtain es1 where
    1: "trace w1 = trace w @ Ev_select # es1" "stops_at_end es1" "end_result es1 = None"
       "list_all relay_event es1"
    by (auto simp: log_def)
  from relay_dir_trace [OF thru(2)] obtain es2 where
    2: "trace w' = trace w1 @ es2" "stops_at_end es2" "end_result es2 = r"
       "list_all relay_event es2" by blast
  from 1 2 have "trace w' = trace w @ (Ev_select # es1 @ es2)
      \<and> stops_at_end (Ev_select # es1 @ es2) \<and> end_result (Ev_select # es1 @ es2) = r
      \<and> list_all relay_event (Ev_select # es1 @ es2)"
    by (simp add: stops_at_end_append end_result_append)
  then show ?thesis by blast
qed

lemma iteration_frame:
  assumes "iteration in_a out_a in_b out_b t w = (r, w')"
  shows "tty w' = tty w \<and> term_state w' = term_state w \<and> fs w' = fs w
           \<and> rd_shut w' = rd_shut w \<and> wr_shut w' = wr_shut w"
  using assms
proof (cases rule: iteration_cases)
  case (brk len)
  from relay_dir_frame [OF brk(2)] show ?thesis by (simp add: log_def)
next
  case (thru w1)
  from relay_dir_frame [OF thru(1)] relay_dir_frame [OF thru(2)] show ?thesis
    by (simp add: log_def)
qed

lemma iteration_moves:
  assumes it: "iteration in_a out_a in_b out_b t w = (r, w')"
      and ne: "in_a \<noteq> in_b" "out_a \<noteq> out_b"
      and ok: "list_all (\<lambda>e. \<not> io_error e) (events_since w w')"
  shows "\<exists>ab ba. inp w in_a = ab @ inp w' in_a \<and> outp w' out_b = outp w out_b @ ab
           \<and> inp w in_b = ba @ inp w' in_b \<and> outp w' out_a = outp w out_a @ ba
           \<and> (case r of
                 None \<Rightarrow> length ab = (if isset_a t then 1 else 0) \<and>
                           length ba = (if isset_b t then 1 else 0)
               | Some len \<Rightarrow> len = 0 \<and> ba = [] \<and>
                   ((isset_a t \<and> inp w' in_a = [] \<and> ab = []) \<or>
                    (isset_b t \<and> inp w' in_b = [] \<and> length ab = (if isset_a t then 1 else 0))))"
  using it
proof (cases rule: iteration_cases)
  case (brk len)
  from relay_dir_trace [OF brk(2)] obtain es where
    es: "trace w' = trace (log Ev_select w) @ es" by blast
  then have "events_since w w' = Ev_select # es" by (simp add: events_since_def log_def)
  with ok es have "list_all (\<lambda>e. \<not> io_error e) (events_since (log Ev_select w) w')"
    by (simp add: events_since_append)
  from relay_dir_moves [OF brk(2) this] obtain ab where
    ab: "inp w in_a = ab @ inp w' in_a" "outp w' out_b = outp w out_b @ ab"
        "\<forall>f. f \<noteq> in_a \<longrightarrow> inp w' f = inp w f" "\<forall>f. f \<noteq> out_b \<longrightarrow> outp w' f = outp w f"
        "len = 0 \<and> isset_a t \<and> ab = [] \<and> inp w' in_a = []"
    by (auto simp: log_def)
  from ab(3) ne(1) have b1: "inp w' in_b = inp w in_b" by simp
  from ab(4) ne(2) have b2: "outp w' out_a = outp w out_a" by simp
  have "inp w in_a = ab @ inp w' in_a \<and> outp w' out_b = outp w out_b @ ab
      \<and> inp w in_b = [] @ inp w' in_b \<and> outp w' out_a = outp w out_a @ []
      \<and> (case r of
                 None \<Rightarrow> length ab = (if isset_a t then 1 else 0) \<and>
                           length ([] :: byte list) = (if isset_b t then 1 else 0)
               | Some len \<Rightarrow> len = 0 \<and> ([] :: byte list) = [] \<and>
                   ((isset_a t \<and> inp w' in_a = [] \<and> ab = []) \<or>
                    (isset_b t \<and> inp w' in_b = [] \<and> length ab = (if isset_a t then 1 else 0))))"
    using ab(1,2,5) b1 b2 brk(1) by simp
  then show ?thesis by blast
next
  case (thru w1)
  from relay_dir_trace [OF thru(1)] obtain es1 where
    es1: "trace w1 = trace (log Ev_select w) @ es1" by blast
  from relay_dir_trace [OF thru(2)] obtain es2 where
    es2: "trace w' = trace w1 @ es2" by blast
  from es1 es2 have "events_since w w' = Ev_select # es1 @ es2"
    by (simp add: events_since_def log_def)
  with ok es1 es2 have ok1: "list_all (\<lambda>e. \<not> io_error e) (events_since (log Ev_select w) w1)"
    and ok2: "list_all (\<lambda>e. \<not> io_error e) (events_since w1 w')"
    by (simp_all add: events_since_append)
  from relay_dir_moves [OF thru(1) ok1] obtain ab where
    ab: "inp w in_a = ab @ inp w1 in_a" "outp w1 out_b = outp w out_b @ ab"
        "\<forall>f. f \<noteq> in_a \<longrightarrow> inp w1 f = inp w f" "\<forall>f. f \<noteq> out_b \<longrightarrow> outp w1 f = outp w f"
        "length ab = (if isset_a t then 1 else 0)"
    by (auto simp: log_def)
  from relay_dir_moves [OF thru(2) ok2] obtain ba where
    ba: "inp w1 in_b = ba @ inp w' in_b" "outp w' out_a = outp w1 out_a @ ba"
        "\<forall>f. f \<noteq> in_b \<longrightarrow> inp w' f = inp w1 f" "\<forall>f. f \<noteq> out_a \<longrightarrow> outp w' f = outp w1 f"
        "case r of None \<Rightarrow> length ba = (if isset_b t then 1 else 0)
         | Some len \<Rightarrow> len = 0 \<and> isset_b t \<and> ba = [] \<and> inp w' in_b = []"
    by blast
  from ba(3) ne(1) have a1: "inp w' in_a = inp w1 in_a" by simp
  from ba(4) ne(2) have a2: "outp w' out_b = outp w1 out_b" by simp
  from ab(3) ne(1) have a3: "inp w1 in_b = inp w in_b" by simp
  from ab(4) ne(2) have a4: "outp w1 out_a = outp w out_a" by simp
  have "inp w in_a = ab @ inp w' in_a \<and> outp w' out_b = outp w out_b @ ab
      \<and> inp w in_b = ba @ inp w' in_b \<and> outp w' out_a = outp w out_a @ ba
      \<and> (case r of
                 None \<Rightarrow> length ab = (if isset_a t then 1 else 0) \<and>
                           length ba = (if isset_b t then 1 else 0)
               | Some len \<Rightarrow> len = 0 \<and> ba = [] \<and>
                   ((isset_a t \<and> inp w' in_a = [] \<and> ab = []) \<or>
                    (isset_b t \<and> inp w' in_b = [] \<and> length ab = (if isset_a t then 1 else 0))))"
    using ab(1,2,5) ba(1,2,5) a1 a2 a3 a4 by (cases r) simp_all
  then show ?thesis by blast
qed

subsection \<open>The loop\<close>

lemma byte_interchange_cases:
  assumes "byte_interchange in_a out_a in_b out_b (t # ts) w = (r, w')"
  obtains (brk) len where "r = Some len" "iteration in_a out_a in_b out_b t w = (Some len, w')"
  | (loop) w1 where "iteration in_a out_a in_b out_b t w = (None, w1)"
      "byte_interchange in_a out_a in_b out_b ts w1 = (r, w')"
  using assms by (auto split: prod.splits option.splits)

lemma byte_interchange_trace:
  assumes "byte_interchange in_a out_a in_b out_b ts w = (r, w')"
  shows "\<exists>es. trace w' = trace w @ es \<and> stops_at_end es \<and> end_result es = r
           \<and> list_all relay_event es"
  using assms
proof (induction ts arbitrary: w)
  case Nil
  then show ?case by simp
next
  case (Cons t ts)
  from Cons.prems show ?case
  proof (cases rule: byte_interchange_cases)
    case (brk len)
    from iteration_trace [OF brk(2)] brk(1) show ?thesis by simp
  next
    case (loop w1)
    from iteration_trace [OF loop(1)] obtain es1 where
      1: "trace w1 = trace w @ es1" "stops_at_end es1" "end_result es1 = None"
         "list_all relay_event es1" by blast
    from Cons.IH [OF loop(2)] obtain es2 where
      2: "trace w' = trace w1 @ es2" "stops_at_end es2" "end_result es2 = r"
         "list_all relay_event es2" by blast
    from 1 2 have "trace w' = trace w @ (es1 @ es2) \<and> stops_at_end (es1 @ es2)
        \<and> end_result (es1 @ es2) = r \<and> list_all relay_event (es1 @ es2)"
      by (simp add: stops_at_end_append end_result_append)
    then show ?thesis by blast
  qed
qed

lemma byte_interchange_frame:
  assumes "byte_interchange in_a out_a in_b out_b ts w = (r, w')"
  shows "tty w' = tty w \<and> term_state w' = term_state w \<and> fs w' = fs w
           \<and> rd_shut w' = rd_shut w \<and> wr_shut w' = wr_shut w"
  using assms
proof (induction ts arbitrary: w)
  case Nil
  then show ?case by simp
next
  case (Cons t ts)
  from Cons.prems show ?case
  proof (cases rule: byte_interchange_cases)
    case (brk len)
    from iteration_frame [OF brk(2)] show ?thesis .
  next
    case (loop w1)
    from iteration_frame [OF loop(1)] Cons.IH [OF loop(2)] show ?thesis by simp
  qed
qed

text \<open>
  Claim C1, as the code has it. In a run of the relay in which no \<^verbatim>\<open>read\<close> and no \<^verbatim>\<open>write\<close>
  fails, with the two sources distinct descriptors and the two sinks distinct descriptors:
  what has been written to \<open>out_b\<close> is exactly what has been taken from \<open>in_a\<close>, a prefix \<open>ab\<close>
  of what \<open>in_a\<close> delivers, in the same order, each byte once; the same holds from \<open>in_b\<close> to
  \<open>out_a\<close>. The relay moves one byte for every round in which \<^verbatim>\<open>select\<close> reports the source:
  while it is running, the number of bytes passed on in a direction is the number of rounds
  that reported its source. When it has returned, it returned 0 in some round \<open>t\<close> on the
  end of file of a source reported in that round; that source has been passed on
  completely, and the bytes of the other source that no round had reported stay unread.
  Nothing is said of the order between the two directions.
\<close>

theorem byte_interchange_fifo:
  assumes run: "byte_interchange in_a out_a in_b out_b ts w = (r, w')"
      and ne: "in_a \<noteq> in_b" "out_a \<noteq> out_b"
      and ok: "list_all (\<lambda>e. \<not> io_error e) (events_since w w')"
  shows "\<exists>ab ba. inp w in_a = ab @ inp w' in_a \<and> outp w' out_b = outp w out_b @ ab
           \<and> inp w in_b = ba @ inp w' in_b \<and> outp w' out_a = outp w out_a @ ba
           \<and> (case r of
                 None \<Rightarrow> length ab = length (filter isset_a ts) \<and>
                           length ba = length (filter isset_b ts)
               | Some len \<Rightarrow> len = 0 \<and>
                   (\<exists>pre t post. ts = pre @ t # post \<and>
                      length ba = length (filter isset_b pre) \<and>
                      ((isset_a t \<and> inp w' in_a = [] \<and>
                          length ab = length (filter isset_a pre)) \<or>
                       (isset_b t \<and> inp w' in_b = [] \<and>
                          length ab = length (filter isset_a (pre @ [t]))))))"
  using run ok
proof (induction ts arbitrary: w)
  case Nil
  then show ?case by simp
next
  case (Cons t ts)
  from Cons.prems(1) show ?case
  proof (cases rule: byte_interchange_cases)
    case (brk len)
    from iteration_moves [OF brk(2) ne Cons.prems(2)] obtain ab ba where
      1: "inp w in_a = ab @ inp w' in_a" "outp w' out_b = outp w out_b @ ab"
         "inp w in_b = ba @ inp w' in_b" "outp w' out_a = outp w out_a @ ba"
         "len = 0" "ba = []"
         "(isset_a t \<and> inp w' in_a = [] \<and> ab = []) \<or>
          (isset_b t \<and> inp w' in_b = [] \<and> length ab = (if isset_a t then 1 else 0))"
      by auto
    have "t # ts = [] @ t # ts \<and> length ba = length (filter isset_b []) \<and>
        ((isset_a t \<and> inp w' in_a = [] \<and> length ab = length (filter isset_a [])) \<or>
         (isset_b t \<and> inp w' in_b = [] \<and> length ab = length (filter isset_a ([] @ [t]))))"
      using 1(6,7) by auto
    then have "\<exists>pre u post. t # ts = pre @ u # post \<and> length ba = length (filter isset_b pre) \<and>
        ((isset_a u \<and> inp w' in_a = [] \<and> length ab = length (filter isset_a pre)) \<or>
         (isset_b u \<and> inp w' in_b = [] \<and> length ab = length (filter isset_a (pre @ [u]))))"
      by blast
    with 1(1-5) brk(1) show ?thesis by auto
  next
    case (loop w1)
    from iteration_trace [OF loop(1)] obtain es1 where es1: "trace w1 = trace w @ es1" by blast
    from byte_interchange_trace [OF loop(2)] obtain es2 where
      es2: "trace w' = trace w1 @ es2" by blast
    from es1 es2 have "events_since w w' = es1 @ es2" by (simp add: events_since_def)
    with Cons.prems(2) es1 es2 have ok1: "list_all (\<lambda>e. \<not> io_error e) (events_since w w1)"
      and ok2: "list_all (\<lambda>e. \<not> io_error e) (events_since w1 w')"
      by (simp_all add: events_since_append)
    from iteration_moves [OF loop(1) ne ok1] obtain ab1 ba1 where
      1: "inp w in_a = ab1 @ inp w1 in_a" "outp w1 out_b = outp w out_b @ ab1"
         "inp w in_b = ba1 @ inp w1 in_b" "outp w1 out_a = outp w out_a @ ba1"
         "length ab1 = (if isset_a t then 1 else 0)" "length ba1 = (if isset_b t then 1 else 0)"
      by auto
    from Cons.IH [OF loop(2) ok2] obtain ab2 ba2 where
      2: "inp w1 in_a = ab2 @ inp w' in_a" "outp w' out_b = outp w1 out_b @ ab2"
         "inp w1 in_b = ba2 @ inp w' in_b" "outp w' out_a = outp w1 out_a @ ba2"
         "case r of
                 None \<Rightarrow> length ab2 = length (filter isset_a ts) \<and>
                           length ba2 = length (filter isset_b ts)
               | Some len \<Rightarrow> len = 0 \<and>
                   (\<exists>pre t post. ts = pre @ t # post \<and>
                      length ba2 = length (filter isset_b pre) \<and>
                      ((isset_a t \<and> inp w' in_a = [] \<and>
                          length ab2 = length (filter isset_a pre)) \<or>
                       (isset_b t \<and> inp w' in_b = [] \<and>
                          length ab2 = length (filter isset_a (pre @ [t])))))"
      by blast
    have 3: "case r of
                 None \<Rightarrow> length (ab1 @ ab2) = length (filter isset_a (t # ts)) \<and>
                           length (ba1 @ ba2) = length (filter isset_b (t # ts))
               | Some len \<Rightarrow> len = 0 \<and>
                   (\<exists>pre u post. t # ts = pre @ u # post \<and>
                      length (ba1 @ ba2) = length (filter isset_b pre) \<and>
                      ((isset_a u \<and> inp w' in_a = [] \<and>
                          length (ab1 @ ab2) = length (filter isset_a pre)) \<or>
                       (isset_b u \<and> inp w' in_b = [] \<and>
                          length (ab1 @ ab2) = length (filter isset_a (pre @ [u])))))"
    proof (cases r)
      case None
      with 2(5) 1(5,6) show ?thesis by simp
    next
      case (Some len)
      with 2(5) obtain pre u post where
        p: "len = 0" "ts = pre @ u # post" "length ba2 = length (filter isset_b pre)"
           "(isset_a u \<and> inp w' in_a = [] \<and> length ab2 = length (filter isset_a pre)) \<or>
            (isset_b u \<and> inp w' in_b = [] \<and> length ab2 = length (filter isset_a (pre @ [u])))"
        by auto
      have "t # ts = (t # pre) @ u # post \<and>
          length (ba1 @ ba2) = length (filter isset_b (t # pre)) \<and>
          ((isset_a u \<and> inp w' in_a = [] \<and>
               length (ab1 @ ab2) = length (filter isset_a (t # pre))) \<or>
           (isset_b u \<and> inp w' in_b = [] \<and>
               length (ab1 @ ab2) = length (filter isset_a ((t # pre) @ [u]))))"
        using p(2,3,4) 1(5,6) by auto
      then have "\<exists>pre u post. t # ts = pre @ u # post \<and>
                      length (ba1 @ ba2) = length (filter isset_b pre) \<and>
                      ((isset_a u \<and> inp w' in_a = [] \<and>
                          length (ab1 @ ab2) = length (filter isset_a pre)) \<or>
                       (isset_b u \<and> inp w' in_b = [] \<and>
                          length (ab1 @ ab2) = length (filter isset_a (pre @ [u]))))"
        by blast
      with Some p(1) show ?thesis by simp
    qed
    have "inp w in_a = (ab1 @ ab2) @ inp w' in_a \<and> outp w' out_b = outp w out_b @ (ab1 @ ab2)
        \<and> inp w in_b = (ba1 @ ba2) @ inp w' in_b \<and> outp w' out_a = outp w out_a @ (ba1 @ ba2)"
      using 1(1-4) 2(1-4) by simp
    with 3 show ?thesis by blast
  qed
qed

lemma demo_run:
  "byte_interchange 0 1 3 3 demo_ticks demo_world =
     (Some 0, demo_world\<lparr>inp := (\<lambda>fd. []),
        outp := (\<lambda>fd. if fd = 1 then [0x24] else if fd = 3 then [0x6C, 0x73] else []),
        trace := [Ev_select, Ev_read 0 1, Ev_write 3 0x6C 1, Ev_read 3 1, Ev_write 1 0x24 1,
                  Ev_select, Ev_select, Ev_read 0 1, Ev_write 3 0x73 1, Ev_select, Ev_read 0 0]\<rparr>)"
  by (simp add: sys_defs demo_defs fun_eq_iff)

theorem byte_interchange_fifo_witness:
  "(0::int) \<noteq> 3 \<and> (1::int) \<noteq> 3 \<and>
   list_all (\<lambda>e. \<not> io_error e)
     (events_since demo_world (snd (byte_interchange 0 1 3 3 demo_ticks demo_world))) \<and>
   (\<exists>ab ba. inp demo_world 0 = ab @ inp (snd (byte_interchange 0 1 3 3 demo_ticks demo_world)) 0
      \<and> outp (snd (byte_interchange 0 1 3 3 demo_ticks demo_world)) 3 = outp demo_world 3 @ ab
      \<and> inp demo_world 3 = ba @ inp (snd (byte_interchange 0 1 3 3 demo_ticks demo_world)) 3
      \<and> outp (snd (byte_interchange 0 1 3 3 demo_ticks demo_world)) 1 = outp demo_world 1 @ ba
      \<and> (case fst (byte_interchange 0 1 3 3 demo_ticks demo_world) of
            None \<Rightarrow> length ab = length (filter isset_a demo_ticks) \<and>
                      length ba = length (filter isset_b demo_ticks)
          | Some len \<Rightarrow> len = 0 \<and>
              (\<exists>pre t post. demo_ticks = pre @ t # post \<and>
                 length ba = length (filter isset_b pre) \<and>
                 ((isset_a t \<and> inp (snd (byte_interchange 0 1 3 3 demo_ticks demo_world)) 0 = [] \<and>
                     length ab = length (filter isset_a pre)) \<or>
                  (isset_b t \<and> inp (snd (byte_interchange 0 1 3 3 demo_ticks demo_world)) 3 = [] \<and>
                     length ab = length (filter isset_a (pre @ [t])))))))
   \<and> fst (byte_interchange 0 1 3 3 demo_ticks demo_world) = Some 0
   \<and> outp (snd (byte_interchange 0 1 3 3 demo_ticks demo_world)) 3 = [0x6C, 0x73]
   \<and> outp (snd (byte_interchange 0 1 3 3 demo_ticks demo_world)) 1 = [0x24]"
proof -
  have ok: "list_all (\<lambda>e. \<not> io_error e)
     (events_since demo_world (snd (byte_interchange 0 1 3 3 demo_ticks demo_world)))"
    by (simp only: demo_run snd_conv) (simp add: events_since_def demo_world_def)
  have ne: "(0::int) \<noteq> 3" "(1::int) \<noteq> 3" by simp_all
  have c: "fst (byte_interchange 0 1 3 3 demo_ticks demo_world) = Some 0"
    "outp (snd (byte_interchange 0 1 3 3 demo_ticks demo_world)) 3 = [0x6C, 0x73]"
    "outp (snd (byte_interchange 0 1 3 3 demo_ticks demo_world)) 1 = [0x24]"
    by (simp_all only: demo_run fst_conv snd_conv) simp_all
  from byte_interchange_fifo [OF prod.collapse [symmetric] ne ok] ne ok c
  show ?thesis by blast
qed

text \<open>
  Claim C1 as the specification states it fails, in two ways, without any \<^verbatim>\<open>read\<close> or \<^verbatim>\<open>write\<close>
  failing. First, standard input is at its end of file while the socket holds a byte: the
  relay returns 0 and the byte never reaches standard output. Second, a client started with
  standard input closed gets descriptor 0 from \<^verbatim>\<open>socket\<close>, so that both sources of its relay
  are descriptor 0: of the four bytes the shell sends, the first and the third are written
  back to the socket and only the second and the fourth reach standard output.
\<close>

theorem byte_interchange_fifo_counterexample:
  "byte_interchange 0 1 3 3 [tick_ab, tick_b, tick_b] hangup_world =
     (Some 0, hangup_world\<lparr>trace := [Ev_select, Ev_read 0 0]\<rparr>)
   \<and> inp hangup_world 3 = [0x24]
   \<and> outp (hangup_world\<lparr>trace := [Ev_select, Ev_read 0 0]\<rparr>) 1 = []
   \<and> fst (client_mode linux False \<lparr>c_socket_ret = 0, connect_ret = 0, c_relay = [tick_ab, tick_ab]\<rparr>
          (demo_world\<lparr>inp := (\<lambda>fd. if fd = 0 then [0x61, 0x62, 0x63, 0x64] else []),
                       tty := None\<rparr>)) = Running
   \<and> outp (snd (client_mode linux False
                  \<lparr>c_socket_ret = 0, connect_ret = 0, c_relay = [tick_ab, tick_ab]\<rparr>
                  (demo_world\<lparr>inp := (\<lambda>fd. if fd = 0 then [0x61, 0x62, 0x63, 0x64] else []),
                               tty := None\<rparr>))) 1 = [0x62, 0x64]
   \<and> outp (snd (client_mode linux False
                  \<lparr>c_socket_ret = 0, connect_ret = 0, c_relay = [tick_ab, tick_ab]\<rparr>
                  (demo_world\<lparr>inp := (\<lambda>fd. if fd = 0 then [0x61, 0x62, 0x63, 0x64] else []),
                               tty := None\<rparr>))) 0 = [0x61, 0x63]
   \<and> filter is_io (trace (snd (client_mode linux False
                  \<lparr>c_socket_ret = 0, connect_ret = 0, c_relay = [tick_ab, tick_ab]\<rparr>
                  (demo_world\<lparr>inp := (\<lambda>fd. if fd = 0 then [0x61, 0x62, 0x63, 0x64] else []),
                               tty := None\<rparr>)))) =
       [Ev_select, Ev_read 0 1, Ev_write 0 0x61 1, Ev_read 0 1, Ev_write 1 0x62 1,
        Ev_select, Ev_read 0 1, Ev_write 0 0x63 1, Ev_read 0 1, Ev_write 1 0x64 1]"
  by (simp add: client_mode_def console_proxy_def setup_console_def sys_socket_def
        sys_connect_def sys_tcgetattr_def sys_tcsetattr_def STDIN_FILENO_def STDOUT_FILENO_def
        Let_def sys_defs demo_defs hangup_world_def)

lemma ends_relay_result: "ends_relay e \<Longrightarrow> result_of e \<le> 0"
  by (cases e) auto

lemma end_result_nonpos: "end_result es = Some len \<Longrightarrow> len \<le> 0"
  by (induction es) (auto simp: ends_relay_result split: if_splits)

text \<open>
  Claim C2. In every run of the relay, whether it has returned or not: the relay has
  returned exactly when some \<^verbatim>\<open>read\<close> returned 0 or failed, or some \<^verbatim>\<open>write\<close> failed, on
  whichever descriptor; and after the first such event the relay makes no further
  \<^verbatim>\<open>select\<close>, \<^verbatim>\<open>read\<close> or \<^verbatim>\<open>write\<close>, in either direction.
\<close>

theorem byte_interchange_ends_entirely:
  assumes "byte_interchange in_a out_a in_b out_b ts w = (r, w')"
  shows "stops_at_end (events_since w w') \<and>
         (r \<noteq> None \<longleftrightarrow> (\<exists>e \<in> set (events_since w w'). ends_relay e))"
proof -
  from byte_interchange_trace [OF assms] obtain es where
    es: "trace w' = trace w @ es" "stops_at_end es" "end_result es = r" by blast
  from es(1) have "events_since w w' = es" by (rule events_since_append)
  with es(2,3) end_result_None_iff [of es] show ?thesis by auto
qed

text \<open>
  Standard input is at its end of file while the socket still has a byte and \<^verbatim>\<open>select\<close>
  goes on reporting it: the relay returns in the first round and the byte stays unread.
\<close>

lemma hangup_run:
  "byte_interchange 0 1 3 3 [tick_ab, tick_b, tick_b] hangup_world =
     (Some 0, hangup_world\<lparr>trace := [Ev_select, Ev_read 0 0]\<rparr>)"
  by (simp add: sys_defs demo_defs hangup_world_def)

theorem byte_interchange_ends_entirely_witness:
  "stops_at_end (events_since hangup_world (hangup_world\<lparr>trace := [Ev_select, Ev_read 0 0]\<rparr>)) \<and>
   (Some (0::int) \<noteq> None \<longleftrightarrow>
      (\<exists>e \<in> set (events_since hangup_world (hangup_world\<lparr>trace := [Ev_select, Ev_read 0 0]\<rparr>)).
          ends_relay e)) \<and>
   inp (snd (byte_interchange 0 1 3 3 [tick_ab, tick_b, tick_b] hangup_world)) 3 = [0x24]"
proof -
  have "inp (snd (byte_interchange 0 1 3 3 [tick_ab, tick_b, tick_b] hangup_world)) 3 = [0x24]"
    by (simp only: hangup_run snd_conv) (simp add: hangup_world_def)
  with byte_interchange_ends_entirely [OF hangup_run] show ?thesis by blast
qed

text \<open>
  Claim C5, as the code has it. The value returned is \<^verbatim>\<open>len\<close>, the result of the \<^verbatim>\<open>read\<close> or
  \<^verbatim>\<open>write\<close> that ended the relay: 0 for the end of file, \<open>-1\<close> for a \<^verbatim>\<open>read\<close> that failed, the
  result of the \<^verbatim>\<open>write\<close> (below 1) for a \<^verbatim>\<open>write\<close> that failed. It is never positive, and the
  descriptor of the call is no part of it.
\<close>

theorem byte_interchange_return_value:
  assumes "byte_interchange in_a out_a in_b out_b ts w = (r, w')"
  shows "r = end_result (events_since w w') \<and> (\<forall>len. r = Some len \<longrightarrow> len \<le> 0)"
proof -
  from byte_interchange_trace [OF assms] obtain es where
    es: "trace w' = trace w @ es" "end_result es = r" by blast
  from es(1) have "events_since w w' = es" by (rule events_since_append)
  with es(2) end_result_nonpos show ?thesis by auto
qed

theorem byte_interchange_return_value_witness:
  "Some (0::int) =
     end_result (events_since hangup_world (hangup_world\<lparr>trace := [Ev_select, Ev_read 0 0]\<rparr>))
   \<and> fst (byte_interchange 0 1 3 3 [tick_ab, tick_b, tick_b] hangup_world) = Some 0"
proof -
  from byte_interchange_return_value [OF hangup_run]
  have "Some (0::int) =
     end_result (events_since hangup_world (hangup_world\<lparr>trace := [Ev_select, Ev_read 0 0]\<rparr>))"
    by (rule conjunct1)
  then show ?thesis by (simp only: hangup_run fst_conv simp_thms)
qed

text \<open>
  Claim C5 as the specification states it fails: the end of file on source a and the end
  of file on source b return the same 0, and a failed \<^verbatim>\<open>read\<close> on side a and a failed
  \<^verbatim>\<open>write\<close> of the other direction return the same \<open>-1\<close>. The side shows only in the message
  of \<^verbatim>\<open>perror\<close>.
\<close>

theorem byte_interchange_return_value_counterexample:
  "byte_interchange 0 1 3 3 [tick_a] (demo_world\<lparr>inp := (\<lambda>fd. [])\<rparr>) =
     (Some 0, demo_world\<lparr>inp := (\<lambda>fd. []), trace := [Ev_select, Ev_read 0 0]\<rparr>)
   \<and> byte_interchange 0 1 3 3 [tick_b] (demo_world\<lparr>inp := (\<lambda>fd. [])\<rparr>) =
     (Some 0, demo_world\<lparr>inp := (\<lambda>fd. []), trace := [Ev_select, Ev_read 3 0]\<rparr>)
   \<and> fst (byte_interchange 0 1 3 3 [tick_a\<lparr>read_a_fails := True\<rparr>] demo_world) = Some (- 1)
   \<and> events_since demo_world
        (snd (byte_interchange 0 1 3 3 [tick_a\<lparr>read_a_fails := True\<rparr>] demo_world)) =
       [Ev_select, Ev_read 0 (- 1), Ev_perror ''could not read file (a)'']
   \<and> fst (byte_interchange 0 1 3 3 [tick_b\<lparr>write_a_ret := - 1\<rparr>] demo_world) = Some (- 1)
   \<and> events_since demo_world
        (snd (byte_interchange 0 1 3 3 [tick_b\<lparr>write_a_ret := - 1\<rparr>] demo_world)) =
       [Ev_select, Ev_read 3 1, Ev_write 1 0x24 (- 1), Ev_perror ''could not write file (a)'']"
  by (simp add: sys_defs demo_defs events_since_def)

section \<open>Properties of the client\<close>

lemma relay_event_not_terminal: "list_all relay_event es \<Longrightarrow> filter terminal_event es = []"
  by (induction es) (auto elim: relay_event.elims is_io.elims)

lemma setup_console_config:
  "setup_console pf CONS_CONFIG le w =
     w\<lparr>tty := (case tty w of None \<Rightarrow> None | Some _ \<Rightarrow> Some (raw_state pf le (snapshot w))),
       term_state := snapshot w,
       trace := trace w @ [Ev_tcgetattr STDIN_FILENO,
                           Ev_tcsetattr STDIN_FILENO (raw_state pf le (snapshot w))]\<rparr>"
  by (cases "tty w")
     (simp_all add: setup_console_def sys_tcgetattr_def sys_tcsetattr_def log_def snapshot_def
        raw_state_def Let_def)

lemma setup_console_restore:
  "setup_console pf CONS_RESTORE le w =
     w\<lparr>tty := (case tty w of None \<Rightarrow> None | Some _ \<Rightarrow> Some (term_state w)),
       trace := trace w @ [Ev_tcsetattr STDIN_FILENO (term_state w)]\<rparr>"
  by (cases "tty w") (simp_all add: setup_console_def sys_tcsetattr_def log_def)

lemma client_mode_not_connected:
  assumes "c_socket_ret env < 0 \<or> connect_ret env < 0"
  shows "\<exists>es. client_mode pf le env w = (Done (), w\<lparr>trace := trace w @ es\<rparr>)
            \<and> filter terminal_event es = []"
  using assms
  by (auto simp: client_mode_def sys_socket_def sys_connect_def sys_close_def putchar_def
        perror_def log_def)

lemma client_mode_connected:
  assumes ok: "0 \<le> c_socket_ret env" "0 \<le> connect_ret env"
      and run: "client_mode pf le env w = (r, w')"
  shows "\<exists>es. list_all relay_event es \<and> stops_at_end es \<and>
           (case end_result es of
              None \<Rightarrow> r = Running \<and> events_since w w' = client_opening pf le env w @ es
            | Some len \<Rightarrow> r = Done () \<and> tty w' = tty w
                \<and> c_socket_ret env \<in> rd_shut w' \<and> c_socket_ret env \<in> wr_shut w'
                \<and> events_since w w' = client_opening pf le env w @ es @ client_closing env w)"
proof -
  define w2 where "w2 = log (Ev_connect (c_socket_ret env) (SERVER_PATH pf) (connect_ret env))
                          (log (Ev_socket (c_socket_ret env)) w)"
  define wc where "wc = setup_console pf CONS_CONFIG le w2"
  obtain r1 w3 where relay: "byte_interchange STDIN_FILENO STDOUT_FILENO (c_socket_ret env)
      (c_socket_ret env) (c_relay env) wc = (r1, w3)" by force
  have snap: "snapshot w2 = snapshot w"
    by (simp add: w2_def snapshot_def log_def split: option.splits)
  have wc: "trace wc = trace w @ client_opening pf le env w" "term_state wc = snapshot w"
    "tty wc = (case tty w of None \<Rightarrow> None | Some _ \<Rightarrow> Some (raw_state pf le (snapshot w)))"
    by (simp_all add: wc_def setup_console_config snap cong: option.case_cong)
       (simp_all add: w2_def log_def client_opening_def)
  from byte_interchange_trace [OF relay] obtain es where
    es: "trace w3 = trace wc @ es" "stops_at_end es" "end_result es = r1" "list_all relay_event es"
    by blast
  from byte_interchange_frame [OF relay] have
    fr: "tty w3 = tty wc" "term_state w3 = term_state wc" by simp_all
  show ?thesis
  proof (cases r1)
    case None
    with run ok relay have "r = Running" "w' = w3"
      by (auto simp: client_mode_def console_proxy_def sys_socket_def sys_connect_def
            w2_def wc_def)
    with es wc None have "list_all relay_event es \<and> stops_at_end es \<and>
       (case end_result es of None \<Rightarrow> r = Running \<and> events_since w w' = client_opening pf le env w @ es
        | Some len \<Rightarrow> False)"
      by (simp add: events_since_def)
    with None es(3) show ?thesis by (intro exI [where x = es]) simp
  next
    case (Some len)
    with run ok relay have r: "r = Done ()" and w': "w' = putchar CHR 0x0A
        (sys_close (c_socket_ret env) (sys_shutdown (c_socket_ret env) SHUT_RDWR
           (setup_console pf CONS_RESTORE le w3)))"
      by (auto simp: client_mode_def console_proxy_def sys_socket_def sys_connect_def
            w2_def wc_def)
    have "tty w' = tty w" "c_socket_ret env \<in> rd_shut w'" "c_socket_ret env \<in> wr_shut w'"
      "trace w' = trace w @ client_opening pf le env w @ es @ client_closing env w"
      by (simp_all add: w' setup_console_restore putchar_def sys_close_def sys_shutdown_def
            log_def fr wc es client_closing_def snapshot_def split: option.splits)
    with r es Some show ?thesis
      by (intro exI [where x = es]) (simp add: events_since_def)
  qed
qed

lemma relay_event_not_closing: "list_all relay_event es \<Longrightarrow> filter closing_event es = []"
  by (induction es) (auto elim: relay_event.elims is_io.elims)

lemma end_result_client_opening [simp]: "end_result (client_opening pf le env w @ es) = end_result es"
  by (simp add: client_opening_def)

lemma end_result_client_closing [simp]: "end_result (client_closing env w) = None"
  by (simp add: client_closing_def)

lemma demo_client_run:
  "client_mode linux False demo_client demo_world =
     (Done (), demo_world\<lparr>inp := (\<lambda>fd. []),
        outp := (\<lambda>fd. if fd = 1 then [0x24] else if fd = 3 then [0x6C, 0x73] else []),
        rd_shut := {3}, wr_shut := {3}, term_state := cooked,
        trace := [Ev_socket 3, Ev_connect 3 ''/tmp/shell-tunnel-socket'' 0, Ev_tcgetattr 0,
                  Ev_tcsetattr 0 (cooked\<lparr>c_lflag := 0x8A31\<rparr>),
                  Ev_select, Ev_read 0 1, Ev_write 3 0x6C 1, Ev_read 3 1, Ev_write 1 0x24 1,
                  Ev_select, Ev_select, Ev_read 0 1, Ev_write 3 0x73 1, Ev_select, Ev_read 0 0,
                  Ev_tcsetattr 0 cooked, Ev_shutdown 3 SHUT_RDWR, Ev_close 3,
                  Ev_putchar CHR 0x0A]\<rparr>)"
  unfolding client_mode_def console_proxy_def
  apply (simp add: sys_socket_def sys_connect_def demo_client_def STDIN_FILENO_def STDOUT_FILENO_def)
  apply (simp add: setup_console_def sys_tcgetattr_def sys_tcsetattr_def log_def Let_def linux_def SERVER_PATH_def STDIN_FILENO_def)
  apply (simp add: sys_defs demo_defs fun_eq_iff cooked_def)
  apply (simp add: setup_console_def sys_tcgetattr_def sys_tcsetattr_def sys_close_def sys_shutdown_def putchar_def log_def STDIN_FILENO_def fun_eq_iff)
  done

lemma refused_client_run:
  "client_mode linux False (demo_client\<lparr>connect_ret := - 1\<rparr>) demo_world =
     (Done (), demo_world\<lparr>trace := [Ev_socket 3, Ev_connect 3 ''/tmp/shell-tunnel-socket'' (- 1),
        Ev_perror ''could not connect to socket'', Ev_close 3, Ev_putchar CHR 0x0A]\<rparr>)"
  by (simp add: client_mode_def sys_socket_def sys_connect_def sys_close_def putchar_def
        perror_def log_def demo_client_def demo_world_def linux_def SERVER_PATH_def)

text \<open>
  Claim C3. For every run of the client. When \<^verbatim>\<open>socket\<close> or \<^verbatim>\<open>connect\<close> fails, the client
  returns without any \<^verbatim>\<open>tcgetattr\<close> or \<^verbatim>\<open>tcsetattr\<close>: the terminal and \<^verbatim>\<open>term_state\<close> are
  untouched. Otherwise, as long as no \<^verbatim>\<open>read\<close> or \<^verbatim>\<open>write\<close> has ended the relay the client is
  still running; and once one has, whether by end of file or by a failed \<^verbatim>\<open>read\<close> or
  \<^verbatim>\<open>write\<close>, the client has returned, the terminal calls were exactly one \<^verbatim>\<open>tcgetattr\<close>, the
  \<^verbatim>\<open>tcsetattr\<close> to raw mode and one \<^verbatim>\<open>tcsetattr\<close> of the snapshot, and the line discipline
  is what it was before.
\<close>

theorem client_mode_restores_terminal:
  assumes "client_mode pf local_echo env w = (r, w')"
  shows "if c_socket_ret env < 0 \<or> connect_ret env < 0
         then r = Done () \<and> filter terminal_event (events_since w w') = []
              \<and> tty w' = tty w \<and> term_state w' = term_state w
         else if end_result (events_since w w') = None then r = Running
         else r = Done () \<and> tty w' = tty w \<and>
              filter terminal_event (events_since w w') =
                [Ev_tcgetattr STDIN_FILENO,
                 Ev_tcsetattr STDIN_FILENO (raw_state pf local_echo (snapshot w)),
                 Ev_tcsetattr STDIN_FILENO (snapshot w)]"
proof (cases "c_socket_ret env < 0 \<or> connect_ret env < 0")
  case True
  from client_mode_not_connected [OF True, of pf local_echo w] assms True
  show ?thesis by (auto simp: events_since_def)
next
  case False
  then have ok: "0 \<le> c_socket_ret env" "0 \<le> connect_ret env" by simp_all
  from client_mode_connected [OF ok assms] obtain es where
    es: "list_all relay_event es"
        "case end_result es of
              None \<Rightarrow> r = Running \<and> events_since w w' = client_opening pf local_echo env w @ es
            | Some len \<Rightarrow> r = Done () \<and> tty w' = tty w
                \<and> c_socket_ret env \<in> rd_shut w' \<and> c_socket_ret env \<in> wr_shut w'
                \<and> events_since w w' = client_opening pf local_echo env w @ es @ client_closing env w"
    by blast
  show ?thesis
  proof (cases "end_result es")
    case None
    with es(2) False show ?thesis by simp
  next
    case (Some len)
    with es(2) have *: "r = Done ()" "tty w' = tty w"
      "events_since w w' = client_opening pf local_echo env w @ es @ client_closing env w"
      by simp_all
    from *(3) Some have "end_result (events_since w w') \<noteq> None"
      by simp (simp add: end_result_append)
    moreover from *(3) relay_event_not_terminal [OF es(1)]
    have "filter terminal_event (events_since w w') =
                [Ev_tcgetattr STDIN_FILENO,
                 Ev_tcsetattr STDIN_FILENO (raw_state pf local_echo (snapshot w)),
                 Ev_tcsetattr STDIN_FILENO (snapshot w)]"
      by (simp add: client_opening_def client_closing_def)
    ultimately show ?thesis using False * by simp
  qed
qed

theorem client_mode_restores_terminal_witness:
  "filter terminal_event
       (events_since demo_world (snd (client_mode linux False demo_client demo_world))) =
     [Ev_tcgetattr 0, Ev_tcsetattr 0 (cooked\<lparr>c_lflag := 0x8A31\<rparr>), Ev_tcsetattr 0 cooked]
   \<and> tty (snd (client_mode linux False demo_client demo_world)) = Some cooked
   \<and> filter terminal_event
       (events_since demo_world
          (snd (client_mode linux False (demo_client\<lparr>connect_ret := - 1\<rparr>) demo_world))) = []"
proof -
  have c: "\<not> (c_socket_ret demo_client < 0 \<or> connect_ret demo_client < 0)"
    by (simp add: demo_client_def)
  have s: "snapshot demo_world = cooked" "tty demo_world = Some cooked"
    by (simp_all add: snapshot_def demo_world_def)
  have r: "raw_state linux False cooked = cooked\<lparr>c_lflag := 0x8A31\<rparr>"
    by (simp add: raw_state_def linux_def cooked_def)
  have d: "c_socket_ret (demo_client\<lparr>connect_ret := - 1\<rparr>) < 0
         \<or> connect_ret (demo_client\<lparr>connect_ret := - 1\<rparr>) < 0" by simp
  from client_mode_restores_terminal [OF demo_client_run] c
  have 1: "filter terminal_event
       (events_since demo_world (snd (client_mode linux False demo_client demo_world))) =
     [Ev_tcgetattr 0, Ev_tcsetattr 0 (cooked\<lparr>c_lflag := 0x8A31\<rparr>), Ev_tcsetattr 0 cooked]
     \<and> tty (snd (client_mode linux False demo_client demo_world)) = Some cooked"
    by (simp only: demo_client_run snd_conv s r STDIN_FILENO_def if_False split: if_splits) simp
  from client_mode_restores_terminal [OF refused_client_run] d
  have 2: "filter terminal_event
       (events_since demo_world
          (snd (client_mode linux False (demo_client\<lparr>connect_ret := - 1\<rparr>) demo_world))) = []"
    by (simp only: refused_client_run snd_conv if_True)
  from 1 2 show ?thesis by simp
qed

text \<open>
  Claim C4, as the code has it. When the relay of a connected client has ended, the trace
  of the client is: \<^verbatim>\<open>socket\<close>, \<^verbatim>\<open>connect\<close>, the two terminal calls of the setup, the events \<open>es\<close>
  of the relay with the call that ended it, and then, in this order, the \<^verbatim>\<open>tcsetattr\<close> that
  restores the terminal, \<^verbatim>\<open>shutdown(sockfd, SHUT_RDWR)\<close>, \<^verbatim>\<open>close(sockfd)\<close> and the final
  newline. These are its only calls of \<^verbatim>\<open>shutdown\<close> and \<^verbatim>\<open>close\<close>: after the relay, both halves
  of the connection, the read half too, are shut down before the descriptor is closed.
\<close>

theorem client_mode_shuts_both_halves:
  assumes "0 \<le> c_socket_ret env" and "0 \<le> connect_ret env"
      and "client_mode pf local_echo env w = (Done (), w')"
  shows "(\<exists>es. list_all relay_event es \<and> end_result es \<noteq> None \<and>
            events_since w w' =
              [Ev_socket (c_socket_ret env),
               Ev_connect (c_socket_ret env) (SERVER_PATH pf) (connect_ret env),
               Ev_tcgetattr STDIN_FILENO,
               Ev_tcsetattr STDIN_FILENO (raw_state pf local_echo (snapshot w))] @
              es @
              [Ev_tcsetattr STDIN_FILENO (snapshot w),
               Ev_shutdown (c_socket_ret env) SHUT_RDWR,
               Ev_close (c_socket_ret env),
               Ev_putchar CHR 0x0A])
         \<and> filter closing_event (events_since w w') =
           [Ev_shutdown (c_socket_ret env) SHUT_RDWR, Ev_close (c_socket_ret env)]
         \<and> c_socket_ret env \<in> rd_shut w' \<and> c_socket_ret env \<in> wr_shut w'"
proof -
  from client_mode_connected [OF assms] obtain es where
    es: "list_all relay_event es"
        "case end_result es of
              None \<Rightarrow> Done () = (Running :: unit outcome) \<and> events_since w w' = client_opening pf local_echo env w @ es
            | Some len \<Rightarrow> Done () = (Done () :: unit outcome) \<and> tty w' = tty w
                \<and> c_socket_ret env \<in> rd_shut w' \<and> c_socket_ret env \<in> wr_shut w'
                \<and> events_since w w' = client_opening pf local_echo env w @ es @ client_closing env w"
    by blast
  from es(2) have *: "end_result es \<noteq> None"
      "c_socket_ret env \<in> rd_shut w'" "c_socket_ret env \<in> wr_shut w'"
      "events_since w w' = client_opening pf local_echo env w @ es @ client_closing env w"
    by (simp_all split: option.splits)
  from *(4) relay_event_not_closing [OF es(1)]
  have f: "filter closing_event (events_since w w') =
           [Ev_shutdown (c_socket_ret env) SHUT_RDWR, Ev_close (c_socket_ret env)]"
    by (simp add: client_opening_def client_closing_def)
  from *(1,4) es(1) have "list_all relay_event es \<and> end_result es \<noteq> None \<and>
            events_since w w' =
              [Ev_socket (c_socket_ret env),
               Ev_connect (c_socket_ret env) (SERVER_PATH pf) (connect_ret env),
               Ev_tcgetattr STDIN_FILENO,
               Ev_tcsetattr STDIN_FILENO (raw_state pf local_echo (snapshot w))] @
              es @
              [Ev_tcsetattr STDIN_FILENO (snapshot w),
               Ev_shutdown (c_socket_ret env) SHUT_RDWR,
               Ev_close (c_socket_ret env),
               Ev_putchar CHR 0x0A]"
    by (simp add: client_opening_def client_closing_def)
  then have "\<exists>es. list_all relay_event es \<and> end_result es \<noteq> None \<and>
            events_since w w' =
              [Ev_socket (c_socket_ret env),
               Ev_connect (c_socket_ret env) (SERVER_PATH pf) (connect_ret env),
               Ev_tcgetattr STDIN_FILENO,
               Ev_tcsetattr STDIN_FILENO (raw_state pf local_echo (snapshot w))] @
              es @
              [Ev_tcsetattr STDIN_FILENO (snapshot w),
               Ev_shutdown (c_socket_ret env) SHUT_RDWR,
               Ev_close (c_socket_ret env),
               Ev_putchar CHR 0x0A]" by blast
  with f *(2,3) show ?thesis by blast
qed

theorem client_mode_shuts_both_halves_witness:
  "0 \<le> c_socket_ret demo_client \<and> 0 \<le> connect_ret demo_client \<and>
   fst (client_mode linux False demo_client demo_world) = Done () \<and>
   (\<exists>es. list_all relay_event es \<and> end_result es \<noteq> None \<and>
      events_since demo_world (snd (client_mode linux False demo_client demo_world)) =
        [Ev_socket 3, Ev_connect 3 ''/tmp/shell-tunnel-socket'' 0, Ev_tcgetattr 0,
         Ev_tcsetattr 0 (cooked\<lparr>c_lflag := 0x8A31\<rparr>)] @ es @
        [Ev_tcsetattr 0 cooked, Ev_shutdown 3 SHUT_RDWR, Ev_close 3, Ev_putchar CHR 0x0A]) \<and>
   filter closing_event
       (events_since demo_world (snd (client_mode linux False demo_client demo_world))) =
     [Ev_shutdown 3 SHUT_RDWR, Ev_close 3]
   \<and> 3 \<in> rd_shut (snd (client_mode linux False demo_client demo_world))
   \<and> 3 \<in> wr_shut (snd (client_mode linux False demo_client demo_world))"
proof -
  have ok: "0 \<le> c_socket_ret demo_client" "0 \<le> connect_ret demo_client"
    by (simp_all add: demo_client_def)
  have v: "c_socket_ret demo_client = 3" "connect_ret demo_client = 0"
    "SERVER_PATH linux = ''/tmp/shell-tunnel-socket''" "STDIN_FILENO = 0"
    "snapshot demo_world = cooked" "raw_state linux False cooked = cooked\<lparr>c_lflag := 0x8A31\<rparr>"
    by (simp_all add: demo_client_def SERVER_PATH_def linux_def STDIN_FILENO_def snapshot_def
          demo_world_def raw_state_def cooked_def)
  have d: "fst (client_mode linux False demo_client demo_world) = Done ()"
    by (simp only: demo_client_run fst_conv)
  from client_mode_shuts_both_halves [OF ok demo_client_run] ok d show ?thesis
    by (simp only: demo_client_run fst_conv snd_conv v simp_thms)
qed

text \<open>
  Claim C4 as the specification states it fails: in the example run the client never calls
  \<^verbatim>\<open>shutdown\<close> with \<^verbatim>\<open>SHUT_WR\<close>, and the read half of descriptor 3, open before, is shut down
  when the client returns.
\<close>

theorem client_mode_shutdown_counterexample:
  "filter closing_event (trace (snd (client_mode linux False demo_client demo_world))) =
     [Ev_shutdown 3 SHUT_RDWR, Ev_close 3]
   \<and> Ev_shutdown 3 SHUT_WR \<notin> set (trace (snd (client_mode linux False demo_client demo_world)))
   \<and> 3 \<notin> rd_shut demo_world
   \<and> 3 \<in> rd_shut (snd (client_mode linux False demo_client demo_world))"
  by (simp only: demo_client_run snd_conv) (simp add: demo_world_def)

lemma parse_args_echo: "snd (parse_args args (md, le)) = (le \<or> ''--echo'' \<in> set args)"
  by (induction args arbitrary: md le) auto

lemma and_not_or_left: "(x AND NOT (a OR b)) AND a = (0 :: 32 word)"
  by (auto simp: bit_eq_iff bit_and_iff bit_or_iff bit_not_iff)

lemma and_not_or_right: "(x AND NOT (a OR b)) AND b = (0 :: 32 word)"
  by (auto simp: bit_eq_iff bit_and_iff bit_or_iff bit_not_iff)

lemma and_not_keeps:
  assumes "a AND e = (0 :: 32 word)"
  shows "(x AND NOT a) AND e = x AND e"
proof -
  have "\<not> (bit a n \<and> bit e n)" for n
  proof -
    from assms have "bit (a AND e) n = bit (0 :: 32 word) n" by simp
    then show ?thesis by (simp add: bit_and_iff)
  qed
  then show ?thesis
    by (auto simp: bit_eq_iff bit_and_iff bit_not_iff)
qed

lemma raw_state_flags:
  "c_lflag (raw_state pf le st) AND ICANON pf = 0"
  "\<not> le \<Longrightarrow> c_lflag (raw_state pf le st) AND ECHO pf = 0"
  "le \<Longrightarrow> ICANON pf AND ECHO pf = 0 \<Longrightarrow>
     c_lflag (raw_state pf le st) AND ECHO pf = c_lflag st AND ECHO pf"
  "raw_state pf le st = st\<lparr>c_lflag := c_lflag (raw_state pf le st)\<rparr>"
proof -
  have sel: "c_lflag (raw_state pf le st) =
      c_lflag st AND NOT (ICANON pf OR (if \<not> le then ECHO pf else 0))"
    by (simp add: raw_state_def)
  show "c_lflag (raw_state pf le st) AND ICANON pf = 0"
    unfolding sel by (rule and_not_or_left)
  show "\<not> le \<Longrightarrow> c_lflag (raw_state pf le st) AND ECHO pf = 0"
    unfolding sel by (simp only: if_True not_False_eq_True and_not_or_right)
  show "le \<Longrightarrow> ICANON pf AND ECHO pf = 0 \<Longrightarrow>
     c_lflag (raw_state pf le st) AND ECHO pf = c_lflag st AND ECHO pf"
    unfolding sel by (simp add: and_not_keeps)
  show "raw_state pf le st = st\<lparr>c_lflag := c_lflag (raw_state pf le st)\<rparr>"
    by (simp add: raw_state_def)
qed

lemma main_client:
  assumes "fst (parse_args (drop 1 argv) (MODE_UNDEF, False)) = MODE_CLIENT"
  shows "snd (main pf argv env w) =
           snd (client_mode pf (''--echo'' \<in> set (drop 1 argv)) (client_e env) w)"
proof -
  obtain md le where p: "parse_args (drop 1 argv) (MODE_UNDEF, False) = (md, le)" by force
  with assms have md: "md = MODE_CLIENT" by simp
  from p parse_args_echo [of "drop 1 argv" MODE_UNDEF False]
  have le: "le = (''--echo'' \<in> set (drop 1 argv))" by simp
  show ?thesis
    unfolding main_def p md le
    by (simp split: prod.splits outcome.splits)
qed

text \<open>
  Claim C8. For every command line that selects the client, with \<^verbatim>\<open>socket\<close> and \<^verbatim>\<open>connect\<close>
  succeeding: the first terminal setting of the run is a \<^verbatim>\<open>tcsetattr\<close> of a state \<open>raw\<close> that
  is the snapshot with another \<^verbatim>\<open>c_lflag\<close>, in which \<^verbatim>\<open>ICANON\<close> is clear; \<^verbatim>\<open>ECHO\<close> is clear
  in it when \<^verbatim>\<open>--echo\<close> is not among the arguments, and is as in the snapshot when \<^verbatim>\<open>--echo\<close>
  is among them (\<^verbatim>\<open>ICANON\<close> and \<^verbatim>\<open>ECHO\<close> being different bits).
\<close>

theorem main_client_raw_mode:
  assumes "fst (parse_args (drop 1 argv) (MODE_UNDEF, False)) = MODE_CLIENT"
      and "0 \<le> c_socket_ret (client_e env)" and "0 \<le> connect_ret (client_e env)"
  shows "\<exists>raw rest.
           events_since w (snd (main pf argv env w)) =
             [Ev_socket (c_socket_ret (client_e env)),
              Ev_connect (c_socket_ret (client_e env)) (SERVER_PATH pf) (connect_ret (client_e env)),
              Ev_tcgetattr STDIN_FILENO,
              Ev_tcsetattr STDIN_FILENO raw] @ rest
           \<and> raw = (snapshot w)\<lparr>c_lflag := c_lflag raw\<rparr>
           \<and> c_lflag raw AND ICANON pf = 0
           \<and> (''--echo'' \<notin> set (drop 1 argv) \<longrightarrow> c_lflag raw AND ECHO pf = 0)
           \<and> (''--echo'' \<in> set (drop 1 argv) \<and> ICANON pf AND ECHO pf = 0 \<longrightarrow>
                c_lflag raw AND ECHO pf = c_lflag (snapshot w) AND ECHO pf)"
proof -
  let ?le = "''--echo'' \<in> set (drop 1 argv)"
  let ?raw = "raw_state pf ?le (snapshot w)"
  obtain r w' where run: "client_mode pf ?le (client_e env) w = (r, w')" by force
  with main_client [OF assms(1)] have w': "snd (main pf argv env w) = w'" by simp
  from client_mode_connected [OF assms(2,3) run] obtain es where
    es: "case end_result es of
              None \<Rightarrow> r = Running \<and> events_since w w' = client_opening pf ?le (client_e env) w @ es
            | Some len \<Rightarrow> r = Done () \<and> tty w' = tty w
                \<and> c_socket_ret (client_e env) \<in> rd_shut w' \<and> c_socket_ret (client_e env) \<in> wr_shut w'
                \<and> events_since w w' = client_opening pf ?le (client_e env) w @ es @ client_closing (client_e env) w"
    by blast
  then obtain rest where "events_since w w' = client_opening pf ?le (client_e env) w @ rest"
    by (cases "end_result es") auto
  with w' have ev: "events_since w (snd (main pf argv env w)) =
             [Ev_socket (c_socket_ret (client_e env)),
              Ev_connect (c_socket_ret (client_e env)) (SERVER_PATH pf) (connect_ret (client_e env)),
              Ev_tcgetattr STDIN_FILENO,
              Ev_tcsetattr STDIN_FILENO ?raw] @ rest"
    by (simp add: client_opening_def)
  have "events_since w (snd (main pf argv env w)) =
             [Ev_socket (c_socket_ret (client_e env)),
              Ev_connect (c_socket_ret (client_e env)) (SERVER_PATH pf) (connect_ret (client_e env)),
              Ev_tcgetattr STDIN_FILENO,
              Ev_tcsetattr STDIN_FILENO ?raw] @ rest
           \<and> ?raw = (snapshot w)\<lparr>c_lflag := c_lflag ?raw\<rparr>
           \<and> c_lflag ?raw AND ICANON pf = 0
           \<and> (''--echo'' \<notin> set (drop 1 argv) \<longrightarrow> c_lflag ?raw AND ECHO pf = 0)
           \<and> (''--echo'' \<in> set (drop 1 argv) \<and> ICANON pf AND ECHO pf = 0 \<longrightarrow>
                c_lflag ?raw AND ECHO pf = c_lflag (snapshot w) AND ECHO pf)"
    using ev raw_state_flags [where pf = pf and le = ?le and st = "snapshot w"] by blast
  then show ?thesis by blast
qed

theorem main_client_raw_mode_witness:
  "fst (parse_args (drop 1 [''shell-tunnel'', ''--client'', ''--echo'']) (MODE_UNDEF, False)) =
     MODE_CLIENT
   \<and> 0 \<le> c_socket_ret (client_e demo_main) \<and> 0 \<le> connect_ret (client_e demo_main)
   \<and> ''--echo'' \<in> set (drop 1 [''shell-tunnel'', ''--client'', ''--echo''])
   \<and> ICANON linux AND ECHO linux = 0
   \<and> (\<exists>raw rest.
         events_since demo_world
           (snd (main linux [''shell-tunnel'', ''--client'', ''--echo''] demo_main demo_world)) =
           [Ev_socket 3, Ev_connect 3 ''/tmp/shell-tunnel-socket'' 0, Ev_tcgetattr 0,
            Ev_tcsetattr 0 raw] @ rest
         \<and> c_lflag raw AND ICANON linux = 0
         \<and> c_lflag raw AND ECHO linux = c_lflag cooked AND ECHO linux)"
proof -
  have h: "fst (parse_args (drop 1 [''shell-tunnel'', ''--client'', ''--echo'']) (MODE_UNDEF, False)) =
     MODE_CLIENT" "0 \<le> c_socket_ret (client_e demo_main)" "0 \<le> connect_ret (client_e demo_main)"
    by (simp_all add: demo_main_def demo_client_def)
  have e: "''--echo'' \<in> set (drop 1 [''shell-tunnel'', ''--client'', ''--echo''])"
    "ICANON linux AND ECHO linux = 0"
    by (simp_all add: linux_def)
  have v: "c_socket_ret (client_e demo_main) = 3" "connect_ret (client_e demo_main) = 0"
    "SERVER_PATH linux = ''/tmp/shell-tunnel-socket''" "snapshot demo_world = cooked"
    "STDIN_FILENO = 0"
    by (simp_all add: demo_main_def demo_client_def SERVER_PATH_def linux_def snapshot_def
          demo_world_def STDIN_FILENO_def)
  from main_client_raw_mode [OF h, of demo_world linux] e
  have "\<exists>raw rest.
         events_since demo_world
           (snd (main linux [''shell-tunnel'', ''--client'', ''--echo''] demo_main demo_world)) =
           [Ev_socket 3, Ev_connect 3 ''/tmp/shell-tunnel-socket'' 0, Ev_tcgetattr 0,
            Ev_tcsetattr 0 raw] @ rest
         \<and> c_lflag raw AND ICANON linux = 0
         \<and> c_lflag raw AND ECHO linux = c_lflag cooked AND ECHO linux"
    unfolding v by blast
  with h e show ?thesis by blast
qed

section \<open>Properties of the server\<close>

lemmas server_sys_defs = sys_socket_def sys_bind_def sys_listen_def sys_chmod_def sys_accept_def
  sys_fork_def sys_close_def sys_unlink_def sys_openpty_def out_err_1_def out_err_2_def
  perror_def log_def

lemma accept_loop_served:
  assumes "list_all served pre"
  shows "accept_loop pf sockfd (pre @ rest) w =
           accept_loop pf sockfd rest (w\<lparr>trace := trace w @ parent_rounds sockfd pre\<rparr>)"
  using assms
proof (induction pre arbitrary: w)
  case Nil
  then show ?case by (simp add: parent_rounds_def)
next
  case (Cons a pre)
  from Cons.prems have "served a" and pre: "list_all served pre" by simp_all
  then have a: "0 \<le> accept_ret a" "0 < accept_fork a" by (simp_all add: served_def)
  have "accept_loop pf sockfd ((a # pre) @ rest) w =
      accept_loop pf sockfd (pre @ rest) (w\<lparr>trace := trace w @ parent_round sockfd a\<rparr>)"
    using a by (simp add: server_sys_defs parent_round_def)
  also have "\<dots> = accept_loop pf sockfd rest
      (w\<lparr>trace := trace w @ parent_round sockfd a @ parent_rounds sockfd pre\<rparr>)"
    by (simp add: Cons.IH [OF pre])
  finally show ?case by (simp add: parent_rounds_def)
qed

lemma accept_loop_accept_fails:
  assumes "accept_ret a < 0"
  shows "accept_loop pf sockfd (a # post) w =
           (Done (), w\<lparr>fs := fs w - {SERVER_PATH pf},
                        trace := trace w @ accept_failure pf sockfd a\<rparr>)"
  using assms by (simp add: server_sys_defs accept_failure_def)

lemma server_mode_setup_ok:
  assumes "0 \<le> socket_ret env" "0 \<le> bind_ret env" "0 \<le> listen_ret env" "0 \<le> chmod_ret env"
  shows "server_mode pf env w =
           accept_loop pf (socket_ret env) (accepts env)
             (w\<lparr>fs := insert (SERVER_PATH pf) (fs w), trace := trace w @ server_setup pf env\<rparr>)"
  using assms by (simp add: server_mode_def server_sys_defs server_setup_def)

lemma server_mode_accept_fails:
  assumes "0 \<le> socket_ret env" "0 \<le> bind_ret env" "0 \<le> listen_ret env" "0 \<le> chmod_ret env"
      and "accepts env = pre @ a # post" and "list_all served pre" and "accept_ret a < 0"
  shows "server_mode pf env w =
           (Done (), w\<lparr>fs := fs w - {SERVER_PATH pf},
                        trace := trace w @ server_setup pf env @
                          parent_rounds (socket_ret env) pre @
                          accept_failure pf (socket_ret env) a\<rparr>)"
proof -
  let ?w1 = "w\<lparr>fs := insert (SERVER_PATH pf) (fs w), trace := trace w @ server_setup pf env\<rparr>"
  let ?w2 = "?w1\<lparr>trace := trace ?w1 @ parent_rounds (socket_ret env) pre\<rparr>"
  have "server_mode pf env w = accept_loop pf (socket_ret env) (pre @ a # post) ?w1"
    by (simp only: server_mode_setup_ok [OF assms(1-4)] assms(5))
  also have "\<dots> = accept_loop pf (socket_ret env) (a # post) ?w2"
    by (rule accept_loop_served [OF assms(6)])
  also have "\<dots> = (Done (), ?w2\<lparr>fs := fs ?w2 - {SERVER_PATH pf},
                        trace := trace ?w2 @ accept_failure pf (socket_ret env) a\<rparr>)"
    by (rule accept_loop_accept_fails [OF assms(7)])
  finally show ?thesis by simp
qed

text \<open>
  Claim C7. The daemon has set up its socket and has served any number of connections as
  the acceptor; then \<^verbatim>\<open>accept\<close> fails. \<^verbatim>\<open>server_mode\<close> returns at once, whatever connections
  would have followed: after the failed \<^verbatim>\<open>accept\<close> it reports the error, closes the
  listening socket and unlinks the rendezvous path, which no longer exists.
\<close>

theorem server_mode_accept_failure_fatal:
  assumes "0 \<le> socket_ret env" "0 \<le> bind_ret env" "0 \<le> listen_ret env" "0 \<le> chmod_ret env"
      and "accepts env = pre @ a # post" and "list_all served pre" and "accept_ret a < 0"
  shows "server_mode pf env w =
           (Done (), w\<lparr>fs := fs w - {SERVER_PATH pf},
                        trace := trace w @ server_setup pf env @
                          parent_rounds (socket_ret env) pre @
                          [Ev_accept (socket_ret env) (accept_ret a),
                           Ev_perror ''could not accept connection'',
                           Ev_close (socket_ret env), Ev_unlink (SERVER_PATH pf)]\<rparr>)"
  using server_mode_accept_fails [OF assms] by (simp add: accept_failure_def)

theorem server_mode_accept_failure_fatal_witness:
  "0 \<le> socket_ret demo_server \<and> 0 \<le> bind_ret demo_server \<and> 0 \<le> listen_ret demo_server \<and>
   0 \<le> chmod_ret demo_server \<and> list_all served [demo_accept] \<and>
   accept_ret (demo_accept\<lparr>accept_ret := - 1\<rparr>) < 0 \<and>
   server_mode linux
     (demo_server\<lparr>accepts := [demo_accept, demo_accept\<lparr>accept_ret := - 1\<rparr>, demo_accept]\<rparr>)
     demo_world =
     (Done (), demo_world\<lparr>fs := {},
        trace := [Ev_socket 3, Ev_bind 3 ''/tmp/shell-tunnel-socket'' 0, Ev_listen 3 1,
                  Ev_chmod ''/tmp/shell-tunnel-socket'' 438 0,
                  Ev_accept 3 4, Ev_fork 77, Ev_close 4,
                  Ev_accept 3 (- 1), Ev_perror ''could not accept connection'',
                  Ev_close 3, Ev_unlink ''/tmp/shell-tunnel-socket'']\<rparr>)"
proof -
  let ?env = "demo_server\<lparr>accepts := [demo_accept, demo_accept\<lparr>accept_ret := - 1\<rparr>, demo_accept]\<rparr>"
  have h: "0 \<le> socket_ret ?env" "0 \<le> bind_ret ?env" "0 \<le> listen_ret ?env" "0 \<le> chmod_ret ?env"
    "accepts ?env = [demo_accept] @ demo_accept\<lparr>accept_ret := - 1\<rparr> # [demo_accept]"
    "list_all served [demo_accept]" "accept_ret (demo_accept\<lparr>accept_ret := - 1\<rparr>) < 0"
    by (simp_all add: demo_server_def demo_accept_def demo_spawn_def demo_shell_def linux_def served_def)
  from server_mode_accept_failure_fatal [OF h, of linux demo_world] h(6,7)
  show ?thesis
    by (simp add: demo_server_def demo_accept_def demo_spawn_def demo_shell_def linux_def server_setup_def parent_rounds_def parent_round_def
          SERVER_PATH_def demo_world_def)
qed

text \<open>
  Claim C9. Once \<^verbatim>\<open>socket\<close> has succeeded, if \<^verbatim>\<open>bind\<close>, \<^verbatim>\<open>listen\<close> or \<^verbatim>\<open>chmod\<close> fails, or an
  \<^verbatim>\<open>accept\<close> of the acceptor fails, \<^verbatim>\<open>server_mode\<close> returns, and its last two calls are the
  \<^verbatim>\<open>close\<close> of the listening socket and the \<^verbatim>\<open>unlink\<close> of the rendezvous path. The \<^verbatim>\<open>unlink\<close>
  does not depend on who created the path: it is gone afterwards also when \<^verbatim>\<open>bind\<close> failed
  because the path of another daemon was there.
\<close>

theorem server_mode_failure_cleanup:
  assumes sock: "0 \<le> socket_ret env"
      and run: "server_mode pf env w = (r, w')"
      and fails: "bind_ret env < 0 \<or> listen_ret env < 0 \<or> chmod_ret env < 0 \<or>
           (\<exists>pre a post. accepts env = pre @ a # post \<and> list_all served pre \<and> accept_ret a < 0)"
  shows "r = Done () \<and>
         (\<exists>es. events_since w w' = es @ [Ev_close (socket_ret env), Ev_unlink (SERVER_PATH pf)]) \<and>
         SERVER_PATH pf \<notin> fs w'"
proof -
  consider (bind) "bind_ret env < 0"
    | (listen) "0 \<le> bind_ret env" "listen_ret env < 0"
    | (chmod) "0 \<le> bind_ret env" "0 \<le> listen_ret env" "chmod_ret env < 0"
    | (accept) pre a post where "0 \<le> bind_ret env" "0 \<le> listen_ret env" "0 \<le> chmod_ret env"
        "accepts env = pre @ a # post" "list_all served pre" "accept_ret a < 0"
    using fails by (meson not_le)
  then show ?thesis
  proof cases
    case bind
    with sock run show ?thesis
      by (auto simp: server_mode_def server_sys_defs events_since_def)
  next
    case listen
    with sock run show ?thesis
      by (auto simp: server_mode_def server_sys_defs events_since_def)
  next
    case chmod
    with sock run show ?thesis
      by (auto simp: server_mode_def server_sys_defs events_since_def)
  next
    case accept
    from server_mode_accept_fails [OF sock accept, of pf w] run
    have r: "r = Done ()" and w': "w' = w\<lparr>fs := fs w - {SERVER_PATH pf},
                        trace := trace w @ server_setup pf env @
                          parent_rounds (socket_ret env) pre @
                          accept_failure pf (socket_ret env) a\<rparr>" by simp_all
    have "events_since w w' = (server_setup pf env @ parent_rounds (socket_ret env) pre @
        [Ev_accept (socket_ret env) (accept_ret a), Ev_perror ''could not accept connection''])
        @ [Ev_close (socket_ret env), Ev_unlink (SERVER_PATH pf)]"
      by (simp add: w' events_since_def accept_failure_def)
    then have "\<exists>es. events_since w w' = es @ [Ev_close (socket_ret env), Ev_unlink (SERVER_PATH pf)]"
      by blast
    with r w' show ?thesis by simp
  qed
qed

theorem server_mode_failure_cleanup_witness:
  "SERVER_PATH linux \<in> fs (demo_world\<lparr>fs := {''/tmp/shell-tunnel-socket''}\<rparr>) \<and>
   0 \<le> socket_ret (demo_server\<lparr>bind_ret := - 1\<rparr>) \<and>
   bind_ret (demo_server\<lparr>bind_ret := - 1\<rparr>) < 0 \<and>
   fst (server_mode linux (demo_server\<lparr>bind_ret := - 1\<rparr>)
          (demo_world\<lparr>fs := {''/tmp/shell-tunnel-socket''}\<rparr>)) = Done () \<and>
   (\<exists>es. events_since (demo_world\<lparr>fs := {''/tmp/shell-tunnel-socket''}\<rparr>)
           (snd (server_mode linux (demo_server\<lparr>bind_ret := - 1\<rparr>)
                  (demo_world\<lparr>fs := {''/tmp/shell-tunnel-socket''}\<rparr>))) =
         es @ [Ev_close 3, Ev_unlink ''/tmp/shell-tunnel-socket'']) \<and>
   SERVER_PATH linux \<notin> fs (snd (server_mode linux (demo_server\<lparr>bind_ret := - 1\<rparr>)
                                  (demo_world\<lparr>fs := {''/tmp/shell-tunnel-socket''}\<rparr>)))"
proof -
  let ?env = "demo_server\<lparr>bind_ret := - 1\<rparr>"
  let ?w = "demo_world\<lparr>fs := {''/tmp/shell-tunnel-socket''}\<rparr>"
  have h: "0 \<le> socket_ret ?env" "bind_ret ?env < 0" "SERVER_PATH linux \<in> fs ?w"
    by (simp_all add: demo_server_def linux_def SERVER_PATH_def)
  have v: "socket_ret ?env = 3" "SERVER_PATH linux = ''/tmp/shell-tunnel-socket''"
    by (simp_all add: demo_server_def linux_def SERVER_PATH_def)
  from h(2) have f: "bind_ret ?env < 0 \<or> listen_ret ?env < 0 \<or> chmod_ret ?env < 0 \<or>
      (\<exists>pre a post. accepts ?env = pre @ a # post \<and> list_all served pre \<and> accept_ret a < 0)"
    by blast
  from server_mode_failure_cleanup [OF h(1) prod.collapse [symmetric] f, of linux ?w] h
  show ?thesis unfolding v by blast
qed

text \<open>
  Claim C6. A connection has been accepted and \<^verbatim>\<open>openpty\<close> fails for it. In the worker
  (\<^verbatim>\<open>fork\<close> returned 0) the error is reported, the connection is closed and \<^verbatim>\<open>server_mode\<close>
  returns: the worker ends, and it has not unlinked the rendezvous path (only its trace has
  changed). In the acceptor (\<^verbatim>\<open>fork\<close> returned the pid of the worker) the round is the same
  as for any other connection: it closes its copy of the connection and goes on with the
  next \<^verbatim>\<open>accept\<close>.
\<close>

theorem pty_failure_ends_only_the_session:
  assumes "0 \<le> accept_ret a" and "openpty_ret (spawn_e a) < 0"
  shows "(accept_fork a = 0 \<longrightarrow>
            accept_loop pf sockfd (a # rest) w =
              (Done (), w\<lparr>trace := trace w @
                 [Ev_accept sockfd (accept_ret a), Ev_fork 0, Ev_close sockfd,
                  Ev_openpty (openpty_ret (spawn_e a)) (pty_mst (spawn_e a)) (pty_slv (spawn_e a)),
                  Ev_perror ''could not open pseudo terminal'',
                  Ev_close (accept_ret a)]\<rparr>))
       \<and> (0 < accept_fork a \<longrightarrow>
            accept_loop pf sockfd (a # rest) w =
              accept_loop pf sockfd rest (w\<lparr>trace := trace w @
                 [Ev_accept sockfd (accept_ret a), Ev_fork (accept_fork a),
                  Ev_close (accept_ret a)]\<rparr>))"
  using assms by (simp add: spawn_shell_def server_sys_defs)

theorem pty_failure_ends_only_the_session_witness:
  "accept_loop linux 3
     [demo_accept\<lparr>accept_fork := 0, spawn_e := demo_spawn\<lparr>openpty_ret := - 1\<rparr>\<rparr>, demo_accept]
     demo_world =
     (Done (), demo_world\<lparr>trace :=
        [Ev_accept 3 4, Ev_fork 0, Ev_close 3, Ev_openpty (- 1) 5 6,
         Ev_perror ''could not open pseudo terminal'', Ev_close 4]\<rparr>)
   \<and> accept_loop linux 3
     [demo_accept\<lparr>spawn_e := demo_spawn\<lparr>openpty_ret := - 1\<rparr>\<rparr>, demo_accept\<lparr>accept_ret := 5\<rparr>]
     demo_world =
     (Running, demo_world\<lparr>trace :=
        [Ev_accept 3 4, Ev_fork 77, Ev_close 4, Ev_accept 3 5, Ev_fork 77, Ev_close 5]\<rparr>)"
proof -
  let ?child = "demo_accept\<lparr>accept_fork := 0, spawn_e := demo_spawn\<lparr>openpty_ret := - 1\<rparr>\<rparr>"
  let ?parent = "demo_accept\<lparr>spawn_e := demo_spawn\<lparr>openpty_ret := - 1\<rparr>\<rparr>"
  have c: "0 \<le> accept_ret ?child" "openpty_ret (spawn_e ?child) < 0" "accept_fork ?child = 0"
    by (simp_all add: demo_accept_def demo_spawn_def demo_shell_def linux_def)
  have p: "0 \<le> accept_ret ?parent" "openpty_ret (spawn_e ?parent) < 0" "0 < accept_fork ?parent"
    by (simp_all add: demo_accept_def demo_spawn_def demo_shell_def linux_def)
  from pty_failure_ends_only_the_session [OF c(1,2), of linux 3 "[demo_accept]" demo_world] c(3)
  have 1: "accept_loop linux 3 [?child, demo_accept] demo_world =
     (Done (), demo_world\<lparr>trace :=
        [Ev_accept 3 4, Ev_fork 0, Ev_close 3, Ev_openpty (- 1) 5 6,
         Ev_perror ''could not open pseudo terminal'', Ev_close 4]\<rparr>)"
    by (simp add: demo_accept_def demo_spawn_def demo_shell_def linux_def demo_world_def)
  from pty_failure_ends_only_the_session [OF p(1,2), of linux 3 "[demo_accept\<lparr>accept_ret := 5\<rparr>]" demo_world] p(3)
  have 2: "accept_loop linux 3 [?parent, demo_accept\<lparr>accept_ret := 5\<rparr>] demo_world =
     (Running, demo_world\<lparr>trace :=
        [Ev_accept 3 4, Ev_fork 77, Ev_close 4, Ev_accept 3 5, Ev_fork 77, Ev_close 5]\<rparr>)"
    by (simp add: demo_accept_def demo_spawn_def demo_shell_def linux_def demo_world_def server_sys_defs)
  from 1 2 show ?thesis by (rule conjI)
qed

section \<open>Properties of the command line\<close>

lemma silent_refl [simp]: "silent w w"
  by (simp add: silent_def)

lemma silent_trans: "silent w w1 \<Longrightarrow> silent w1 w2 \<Longrightarrow> silent w w2"
  by (auto simp: silent_def)

lemma silent_log [simp]: "\<not> usage_event e \<Longrightarrow> silent w (log e w)"
  by (simp add: silent_def log_def)

lemma silent_log_after: "\<not> usage_event e \<Longrightarrow> silent w w1 \<Longrightarrow> silent w (log e w1)"
  by (auto simp: silent_def log_def)

lemma silent_update [simp]:
  "silent w (w1\<lparr>fs := f\<rparr>) = silent w w1"
  "silent w (w1\<lparr>tty := t\<rparr>) = silent w w1"
  "silent w (w1\<lparr>term_state := ts\<rparr>) = silent w w1"
  "silent w (w1\<lparr>rd_shut := r\<rparr>) = silent w w1"
  "silent w (w1\<lparr>wr_shut := r'\<rparr>) = silent w w1"
  by (simp_all add: silent_def)

lemma relay_event_silent: "list_all relay_event es \<Longrightarrow> list_all (\<lambda>e. \<not> usage_event e) es"
  by (induction es) (auto elim: relay_event.elims is_io.elims)

lemma byte_interchange_silent:
  "byte_interchange in_a out_a in_b out_b ts w = (r, w') \<Longrightarrow> silent w w'"
  using byte_interchange_trace [of in_a out_a in_b out_b ts w r w'] relay_event_silent
  by (auto simp: silent_def)

lemma setup_console_silent: "silent w w1 \<Longrightarrow> silent w (setup_console pf ph le w1)"
  by (cases ph)
     (auto simp: setup_console_def sys_tcgetattr_def sys_tcsetattr_def Let_def
        intro!: silent_log_after split: option.splits)

lemma client_mode_silent:
  assumes "client_mode pf le env w = (r, w')"
  shows "silent w w'"
proof -
  let ?w2 = "log (Ev_connect (c_socket_ret env) (SERVER_PATH pf) (connect_ret env))
               (log (Ev_socket (c_socket_ret env)) w)"
  have w2: "silent w ?w2" by (intro silent_log_after silent_refl) simp_all
  obtain r1 w3 where relay: "byte_interchange STDIN_FILENO STDOUT_FILENO (c_socket_ret env)
      (c_socket_ret env) (c_relay env) (setup_console pf CONS_CONFIG le ?w2) = (r1, w3)" by force
  have w3: "silent w w3"
    by (rule silent_trans [OF setup_console_silent [OF w2] byte_interchange_silent [OF relay]])
  from assms relay w2 w3 show ?thesis
    by (auto simp: client_mode_def console_proxy_def sys_socket_def sys_connect_def
          sys_close_def sys_shutdown_def putchar_def perror_def
          intro!: silent_log_after setup_console_silent split: if_splits option.splits)
qed

lemma shell_silent:
  assumes "shell pf fd env w1 = (r, w')" and "silent w w1"
  shows "silent w w'"
  using assms
  by (auto simp: shell_def sys_setsid_def sys_dup2_def sys_ioctl_TIOCSCTTY_def sys_execvp_def
        sys_close_def perror_def intro!: silent_log_after split: if_splits)

lemma spawn_shell_silent:
  assumes "spawn_shell pf sockfd env w1 = (r, w')" and "silent w w1"
  shows "silent w w'"
proof -
  let ?w2 = "log (Ev_fork (spawn_fork env))
               (log (Ev_openpty (openpty_ret env) (pty_mst env) (pty_slv env)) w1)"
  have w2: "silent w ?w2" using assms(2) by (auto intro!: silent_log_after)
  obtain r1 w3 where relay: "byte_interchange sockfd sockfd (pty_mst env) (pty_mst env)
      (s_relay env) (sys_close (pty_slv env) ?w2) = (r1, w3)" by force
  have "silent w (sys_close (pty_slv env) ?w2)"
    unfolding sys_close_def using w2 by (auto intro!: silent_log_after)
  from silent_trans [OF this byte_interchange_silent [OF relay]] have w3: "silent w w3" .
  have sh: "silent w w'" if "shell pf (pty_slv env) (shell_e env) (sys_close (pty_mst env) ?w2) = (r, w')"
    using that w2 by (intro shell_silent [OF that]) (auto simp: sys_close_def intro!: silent_log_after)
  from assms relay w2 w3 sh show ?thesis
    by (auto simp: spawn_shell_def sys_openpty_def sys_fork_def sys_close_def perror_def
          intro!: silent_log_after split: if_splits option.splits)
qed

lemma accept_loop_silent:
  assumes "accept_loop pf sockfd as w1 = (r, w')" and "silent w w1"
  shows "silent w w'"
  using assms
proof (induction as arbitrary: w1)
  case Nil
  then show ?case by simp
next
  case (Cons a as)
  let ?w2 = "log (Ev_fork (accept_fork a)) (log (Ev_accept sockfd (accept_ret a)) w1)"
  have w2: "silent w ?w2" using Cons.prems(2) by (auto intro!: silent_log_after)
  obtain r1 w3 where sp: "spawn_shell pf (accept_ret a) (spawn_e a) (sys_close sockfd ?w2) = (r1, w3)"
    by force
  have "silent w (sys_close sockfd ?w2)"
    unfolding sys_close_def using w2 by (auto intro!: silent_log_after)
  from spawn_shell_silent [OF sp this] have w3: "silent w w3" .
  have pc: "silent w (sys_close (accept_ret a) ?w2)"
    unfolding sys_close_def using w2 by (auto intro!: silent_log_after)
  have ih: "silent w w'" if "accept_loop pf sockfd as (sys_close (accept_ret a) ?w2) = (r, w')"
    using Cons.IH [OF that pc] .
  from Cons.prems(1) sp w2 w3 ih Cons.prems(2) show ?case
    by (auto simp: sys_accept_def sys_fork_def out_err_1_def out_err_2_def sys_unlink_def
          sys_close_def perror_def
          intro!: silent_log_after split: if_splits outcome.splits)
qed

lemma server_mode_silent:
  assumes "server_mode pf env w1 = (r, w')" and "silent w w1"
  shows "silent w w'"
  using assms
  by (auto simp: server_mode_def sys_socket_def sys_bind_def sys_listen_def sys_chmod_def
        out_err_1_def sys_unlink_def sys_close_def perror_def
        elim!: accept_loop_silent intro!: silent_log_after split: if_splits)

lemma parse_args_mode:
  "fst (parse_args args (md, le)) =
     (if filter mode_flag args = [] then md
      else if last (filter mode_flag args) = ''--daemon'' then MODE_DAEMON else MODE_CLIENT)"
  by (induction args arbitrary: md le) (auto simp: mode_flag_def)

lemma parse_args_recognised: "parse_args (filter recognised args) st = parse_args args st"
proof (induction args arbitrary: st)
  case Nil
  then show ?case by simp
next
  case (Cons a as)
  obtain md le where st: "st = (md, le)" by force
  show ?case unfolding st using Cons.IH by (simp add: recognised_def)
qed

lemma silent_no_usage:
  assumes "silent w w'"
  shows "\<not> (\<exists>e \<in> set (events_since w w'). usage_event e)"
  using assms by (auto simp: silent_def events_since_def list_all_iff)

lemma main_usage:
  "(\<exists>e \<in> set (events_since w (snd (main pf argv env w))). usage_event e) \<longleftrightarrow>
     fst (parse_args (drop 1 argv) (MODE_UNDEF, False)) = MODE_UNDEF"
proof -
  obtain md le where p: "parse_args (drop 1 argv) (MODE_UNDEF, False) = (md, le)" by force
  show ?thesis
  proof (cases md)
    case MODE_UNDEF
    have "\<exists>e \<in> set (events_since w (snd (main pf argv env w))). usage_event e"
      unfolding main_def p MODE_UNDEF
      by (simp add: print_usage_def printf_def log_def events_since_def)
    with p MODE_UNDEF show ?thesis by simp
  next
    case MODE_DAEMON
    obtain r w' where run: "server_mode pf (server_e env)
        (log Ev_signal_ignore_SIGCHLD (sys_unlink (SERVER_PATH pf) (log (Ev_fork (daemon_fork env)) w)))
        = (r, w')" by force
    have "silent w (log Ev_signal_ignore_SIGCHLD
        (sys_unlink (SERVER_PATH pf) (log (Ev_fork (daemon_fork env)) w)))"
      by (auto simp: sys_unlink_def intro!: silent_log_after)
    from server_mode_silent [OF run this] have 1: "silent w w'" .
    have 2: "silent w (log (Ev_fork (daemon_fork env)) w)" by simp
    have "silent w (snd (main pf argv env w))"
      unfolding main_def p MODE_DAEMON
      using 1 2 run by (cases r) (auto simp: sys_fork_def)
    from silent_no_usage [OF this] p MODE_DAEMON show ?thesis by simp
  next
    case MODE_CLIENT
    obtain r w' where run: "client_mode pf le (client_e env) w = (r, w')" by force
    have "silent w (snd (main pf argv env w))"
      unfolding main_def p MODE_CLIENT
      using client_mode_silent [OF run] run by (cases r) auto
    from silent_no_usage [OF this] p MODE_CLIENT show ?thesis by simp
  qed
qed

text \<open>
  Claim C10. The mode is decided by the last of the arguments \<^verbatim>\<open>--daemon\<close> and \<^verbatim>\<open>--client\<close>
  on the command line, wherever it stands; arguments other than \<^verbatim>\<open>--daemon\<close>, \<^verbatim>\<open>--client\<close>
  and \<^verbatim>\<open>--echo\<close> change nothing in the result of the parse; and \<^verbatim>\<open>main\<close> prints the usage
  message exactly when neither \<^verbatim>\<open>--daemon\<close> nor \<^verbatim>\<open>--client\<close> is among the arguments.
\<close>

theorem main_mode_selection:
  "fst (parse_args (drop 1 argv) (MODE_UNDEF, False)) =
     (if filter mode_flag (drop 1 argv) = [] then MODE_UNDEF
      else if last (filter mode_flag (drop 1 argv)) = ''--daemon'' then MODE_DAEMON
      else MODE_CLIENT)
   \<and> parse_args (filter recognised (drop 1 argv)) (MODE_UNDEF, False) =
       parse_args (drop 1 argv) (MODE_UNDEF, False)
   \<and> ((\<exists>e \<in> set (events_since w (snd (main pf argv env w))). usage_event e) \<longleftrightarrow>
        filter mode_flag (drop 1 argv) = [])"
proof -
  have "fst (parse_args (drop 1 argv) (MODE_UNDEF, False)) = MODE_UNDEF \<longleftrightarrow>
      filter mode_flag (drop 1 argv) = []"
    by (simp add: parse_args_mode)
  with main_usage [of w pf argv env] parse_args_mode [of "drop 1 argv" MODE_UNDEF False]
    parse_args_recognised [of "drop 1 argv" "(MODE_UNDEF, False)"]
  show ?thesis by simp
qed

theorem main_mode_selection_witness:
  "fst (parse_args (drop 1 [''shell-tunnel'', ''--daemon'', ''-v'', ''--client''])
          (MODE_UNDEF, False)) = MODE_CLIENT
   \<and> parse_args [''--daemon'', ''--client''] (MODE_UNDEF, False) =
       parse_args (drop 1 [''shell-tunnel'', ''--daemon'', ''-v'', ''--client''])
         (MODE_UNDEF, False)
   \<and> \<not> (\<exists>e \<in> set (events_since demo_world
                     (snd (main linux [''shell-tunnel'', ''--daemon'', ''-v'', ''--client'']
                             demo_main demo_world))). usage_event e)"
  using main_mode_selection [of "[''shell-tunnel'', ''--daemon'', ''-v'', ''--client'']"
          demo_world linux demo_main]
  by (simp add: mode_flag_def recognised_def)

end
